theory Spec2Isabelle
  imports Complex_Main
begin

text \<open>
  A shallow embedding of the TOSA legalization helpers of
  \<open>tensorflow/compiler/mlir/tosa/transforms/legalize_utils.cc\<close>: the rescale builders, the
  three lookup-table builders, the padding computation for transposed convolutions and the
  bias helper, followed by the properties proved about them.
\<close>

section \<open>Machine numbers\<close>

text \<open>
  The C++ integer types are modelled as \<open>int\<close> with the two's-complement wrap-around of
  every narrowing conversion and every arithmetic result written out:
  \<open>s16\<close>, \<open>s32\<close> and \<open>s64\<close> read an integer as \<open>int16_t\<close>, \<open>int32_t\<close> and
  \<open>int64_t\<close>, \<open>u32\<close> as \<open>uint32_t\<close>. (C++ leaves signed overflow undefined; the model
  follows the two's-complement hardware.)
\<close>

definition s16 :: "int \<Rightarrow> int" where
  "s16 x = (x + 2 ^ 15) mod 2 ^ 16 - 2 ^ 15"

definition s32 :: "int \<Rightarrow> int" where
  "s32 x = (x + 2 ^ 31) mod 2 ^ 32 - 2 ^ 31"

definition s64 :: "int \<Rightarrow> int" where
  "s64 x = (x + 2 ^ 63) mod 2 ^ 64 - 2 ^ 63"

definition u32 :: "int \<Rightarrow> int" where
  "u32 x = x mod 2 ^ 32"

text \<open>
  A \<open>double\<close> is modelled by the real number it denotes (NaN and the infinities have no
  counterpart, and the rounding of the individual floating-point operations is not
  represented). \<open>std::round\<close> rounds to the nearest integer, ties away from zero;
  \<open>std::llround\<close> does the same and returns a \<open>long long\<close>, read here modulo \<open>2^64\<close>
  where the rounded value does not fit.
\<close>

type_synonym double = real

definition std_round_int :: "double \<Rightarrow> int" where
  "std_round_int x = (if 0 \<le> x then \<lfloor>x + 1 / 2\<rfloor> else \<lceil>x - 1 / 2\<rceil>)"

definition std_round :: "double \<Rightarrow> double" where
  "std_round x = of_int (std_round_int x)"

definition std_llround :: "double \<Rightarrow> int" where
  "std_llround x = s64 (std_round_int x)"

section \<open>Types, attributes, operations and values of the host IR\<close>

text \<open>
  Only what the helpers read or build is represented. An element type is an integer type
  of some width, a float type, a uniform (per-tensor) quantized type, a per-axis quantized
  type, another quantized type (of which only the storage width is read) or something
  else. A type is a ranked tensor type (shape and element type) or any other type, such
  as an unranked tensor. An elements attribute holds a tensor type and integer values.
\<close>

datatype FloatType = F16Type | F32Type | F64Type

record UniformQuantizedType =
  isSigned :: bool
  storageTypeIntegralWidth :: nat
  expressedType :: FloatType
  scale :: double
  zeroPoint :: int
  storageTypeMin :: int
  storageTypeMax :: int

record UniformQuantizedPerAxisType =
  pa_storageTypeIntegralWidth :: nat
  pa_scales :: "double list"
  pa_zeroPoints :: "int list"
  pa_quantizedDimension :: int

datatype ElementType =
    IntegerType nat
  | FloatElementType FloatType
  | UniformQuantized UniformQuantizedType
  | UniformQuantizedPerAxis UniformQuantizedPerAxisType
  | OtherQuantized nat
  | OtherElementType

record RankedTensorType =
  getShape :: "int list"
  getElementType :: ElementType

datatype Type = RankedTensor RankedTensorType | OtherType

datatype Attribute =
    DenseElementsAttr RankedTensorType "int list"
  | IntegerAttr int
  | OtherAttr

text \<open>
  The operands and attributes of a \<open>tosa.rescale\<close>, in the order the builders pass them.
  A value is known by its type and by the operation that defines it, if any.
\<close>

datatype 'v RescaleOp = RescaleOp
  (rs_output_type: RankedTensorType)
  (rs_input: 'v)
  (rs_input_zp: int)
  (rs_output_zp: int)
  (rs_multiplier: "int list")
  (rs_shift: "int list")
  (rs_scale32: bool)
  (rs_double_round: bool)
  (rs_per_channel: bool)

datatype Operation =
    TFL_QConstOp Attribute
  | Tosa_ConstOp Attribute
  | Tosa_RescaleOp "Value RescaleOp"
  | OtherOp
and Value = Value (getType: Type) (getDefiningOp: "Operation option")

text \<open>
  The rewriter and the diagnostic engine are the only state the helpers touch: every
  \<open>rewriter.create\<close> appends the new operation, every \<open>emitOpError\<close> appends its message.
  Source locations are not modelled.
\<close>

record Context =
  created :: "Operation list"
  diagnostics :: "string list"

definition create :: "Context \<Rightarrow> Type \<Rightarrow> Operation \<Rightarrow> Value \<times> Context" where
  "create st ty operation = (Value ty (Some operation), st\<lparr>created := created st @ [operation]\<rparr>)"

definition emitOpError :: "Context \<Rightarrow> string \<Rightarrow> Context" where
  "emitOpError st msg = st\<lparr>diagnostics := diagnostics st @ [msg]\<rparr>"

text \<open>
  What stops a call without a result: a failed \<open>assert\<close>, the use of a null type or
  attribute handle, an index outside a container.
\<close>

datatype fault = PreconditionViolation | NullDereference | IndexOutOfBounds

definition dyn_cast_UniformQuantizedType :: "ElementType \<Rightarrow> UniformQuantizedType option" where
  "dyn_cast_UniformQuantizedType t = (case t of UniformQuantized q \<Rightarrow> Some q | _ \<Rightarrow> None)"

definition dyn_cast_UniformQuantizedPerAxisType ::
    "ElementType \<Rightarrow> UniformQuantizedPerAxisType option" where
  "dyn_cast_UniformQuantizedPerAxisType t =
     (case t of UniformQuantizedPerAxis q \<Rightarrow> Some q | _ \<Rightarrow> None)"

definition dyn_cast_RankedTensorType :: "Type \<Rightarrow> RankedTensorType option" where
  "dyn_cast_RankedTensorType t = (case t of RankedTensor r \<Rightarrow> Some r | OtherType \<Rightarrow> None)"

definition isInteger :: "ElementType \<Rightarrow> nat \<Rightarrow> bool" where
  "isInteger t w = (case t of IntegerType w' \<Rightarrow> w' = w | _ \<Rightarrow> False)"

section \<open>Rescale builders\<close>

definition isScale32 :: "UniformQuantizedType \<Rightarrow> bool" where
  "isScale32 output_element_type =
     (if storageTypeIntegralWidth output_element_type = 8 then True else False)"

text \<open>
  \<open>computeMultiplierAndShift\<close> belongs to the MLIR library, not to this file: it is a
  parameter \<open>cms\<close> of every builder that calls it, taking the scale and the scale width
  and returning the multiplier and the shift.
\<close>

type_synonym computeMultiplierAndShift = "double \<Rightarrow> int \<Rightarrow> int \<times> int"

definition buildRescale ::
    "computeMultiplierAndShift \<Rightarrow> Context \<Rightarrow> RankedTensorType \<Rightarrow> Value \<Rightarrow> double \<Rightarrow> int \<Rightarrow> int
       \<Rightarrow> bool \<Rightarrow> bool \<Rightarrow> Value \<times> Context" where
  "buildRescale cms rewriter output_type input_val scale_arg input_zp output_zp double_round scale32 =
     (let scale_width = (if scale32 then 32 else 16);
          (multiplier, shift) = cms scale_arg scale_width
      in create rewriter (RankedTensor output_type)
           (Tosa_RescaleOp (RescaleOp output_type input_val (s32 input_zp) (s32 output_zp)
              [multiplier] [shift] scale32 double_round False)))"

text \<open>
  The two wrappers assert what they expect of the type of the input value; a failed
  assertion ends the call with \<open>PreconditionViolation\<close>.
\<close>

definition buildRescaleToInt32 ::
    "computeMultiplierAndShift \<Rightarrow> Context \<Rightarrow> Value \<Rightarrow> double \<Rightarrow> int \<Rightarrow> fault + Value \<times> Context" where
  "buildRescaleToInt32 cms rewriter input_val input_scale input_zp =
     (case dyn_cast_RankedTensorType (getType input_val) of
        None \<Rightarrow> Inl PreconditionViolation
      | Some input_type \<Rightarrow>
          (let output_type = \<lparr>getShape = getShape input_type, getElementType = IntegerType 32\<rparr>
           in Inr (buildRescale cms rewriter output_type input_val input_scale input_zp 0 False True)))"

definition buildRescaleFromInt32 ::
    "computeMultiplierAndShift \<Rightarrow> Context \<Rightarrow> RankedTensorType \<Rightarrow> Value \<Rightarrow> double \<Rightarrow> int
       \<Rightarrow> fault + Value \<times> Context" where
  "buildRescaleFromInt32 cms rewriter output_type input_val output_scale output_zp =
     (case dyn_cast_RankedTensorType (getType input_val) of
        None \<Rightarrow> Inl PreconditionViolation
      | Some input_type \<Rightarrow>
          if isInteger (getElementType input_type) 32
          then Inr (buildRescale cms rewriter output_type input_val output_scale 0 output_zp True True)
          else Inl PreconditionViolation)"

text \<open>
  The per-channel loop of \<open>buildRescaleOpConvOutput\<close>, over the channel indices
  \<open>0, 1, \<dots>, output_channels - 1\<close>; reading \<open>weight_scale_arr[oc]\<close> past the end of the
  vector stops the call.
\<close>

primrec conv_channel_loop ::
    "computeMultiplierAndShift \<Rightarrow> double \<Rightarrow> double \<Rightarrow> int \<Rightarrow> double list \<Rightarrow> nat list
       \<Rightarrow> int list \<times> int list \<Rightarrow> fault + int list \<times> int list" where
  "conv_channel_loop cms input_scale output_scale scale_width weight_scale_arr [] arrs = Inr arrs"
| "conv_channel_loop cms input_scale output_scale scale_width weight_scale_arr (oc # ocs) arrs =
     (if oc < length weight_scale_arr
      then (let weight_scale = weight_scale_arr ! oc;
                op_channel_scale = (input_scale * weight_scale) / output_scale;
                (multiplier, shift) = cms op_channel_scale scale_width
            in conv_channel_loop cms input_scale output_scale scale_width weight_scale_arr ocs
                 (fst arrs @ [multiplier], snd arrs @ [shift]))
      else Inl IndexOutOfBounds)"

text \<open>
  \<open>buildRescaleOpConvOutput\<close> reads the scales and the zero point from the results of two
  \<open>dyn_cast\<close>s that it does not check, before it looks at the weight type: where the
  input or the output element type is not uniform-quantized the call ends there. The
  result is the returned value (\<open>None\<close> for the null value) and the state after the call.
\<close>

definition buildRescaleOpConvOutput ::
    "computeMultiplierAndShift \<Rightarrow> Context \<Rightarrow> Value \<Rightarrow> RankedTensorType \<Rightarrow> RankedTensorType
       \<Rightarrow> RankedTensorType \<Rightarrow> fault + Value option \<times> Context" where
  "buildRescaleOpConvOutput cms rewriter conv_val input_type weight_type output_type =
     (case dyn_cast_UniformQuantizedType (getElementType input_type) of
        None \<Rightarrow> Inl NullDereference
      | Some input_qtype \<Rightarrow>
     (case dyn_cast_UniformQuantizedType (getElementType output_type) of
        None \<Rightarrow> Inl NullDereference
      | Some output_qtype \<Rightarrow>
     (let input_scale = scale input_qtype;
          output_zp = zeroPoint output_qtype;
          output_scale = scale output_qtype;
          scale32 = isScale32 output_qtype;
          scale_width = (if scale32 then 32 else 16)
      in
      case dyn_cast_UniformQuantizedType (getElementType weight_type) of
        Some weight_per_tensor_qtype \<Rightarrow>
          (let weight_scale = scale weight_per_tensor_qtype;
               op_tensor_scale = (input_scale * weight_scale) / output_scale;
               (multiplier, shift) = cms op_tensor_scale scale_width;
               (result, rewriter') = create rewriter (RankedTensor output_type)
                  (Tosa_RescaleOp (RescaleOp output_type conv_val 0 (s32 output_zp)
                     [multiplier] [shift] scale32 True False))
           in Inr (Some result, rewriter'))
      | None \<Rightarrow>
     (case dyn_cast_UniformQuantizedPerAxisType (getElementType weight_type) of
        Some weight_per_channel_qtype \<Rightarrow>
          if getShape output_type = [] then Inl IndexOutOfBounds
          else
            (let output_last_axis = length (getShape output_type) - 1;
                 output_channels = u32 (getShape output_type ! output_last_axis);
                 weight_scale_arr = pa_scales weight_per_channel_qtype
             in
             case conv_channel_loop cms input_scale output_scale scale_width weight_scale_arr
                    [0 ..< nat output_channels] ([], []) of
               Inl e \<Rightarrow> Inl e
             | Inr (multiplier_arr, shift_arr) \<Rightarrow>
                 (let (result, rewriter') = create rewriter (RankedTensor output_type)
                        (Tosa_RescaleOp (RescaleOp output_type conv_val 0 (s32 output_zp)
                           multiplier_arr shift_arr scale32 True True))
                  in Inr (Some result, rewriter')))
      | None \<Rightarrow>
          Inr (None, emitOpError rewriter ''buildConvRescaleOp: unknown weight quantized type'')))))"

section \<open>Lookup-table builders\<close>

text \<open>
  The body of the sampling loop of \<open>getTosaConst8bitTable\<close>: the entry computed for the
  loop index \<open>i\<close>, and its \<open>push_back\<close>.
\<close>

definition table8_entry ::
    "double \<Rightarrow> int \<Rightarrow> double \<Rightarrow> int \<Rightarrow> (double \<Rightarrow> double) \<Rightarrow> int \<Rightarrow> int" where
  "table8_entry input_scale input_zp output_scale output_zp func i =
     (let dequantized = input_scale * of_int (s32 (i - input_zp));
          transformed = func dequantized;
          rescaled = s32 (std_llround (transformed / output_scale));
          quantized = s32 (rescaled + output_zp)
      in s16 (min (max quantized (- 32768)) 32767))"

definition table8_step ::
    "double \<Rightarrow> int \<Rightarrow> double \<Rightarrow> int \<Rightarrow> (double \<Rightarrow> double) \<Rightarrow> int \<Rightarrow> int list \<Rightarrow> int list" where
  "table8_step input_scale input_zp output_scale output_zp func i table_vec =
     table_vec @ [table8_entry input_scale input_zp output_scale output_zp func i]"

text \<open>The loop \<open>for (i = -256; i <= 256; i++)\<close>, from the empty vector.\<close>

definition table8_vec ::
    "double \<Rightarrow> int \<Rightarrow> double \<Rightarrow> int \<Rightarrow> (double \<Rightarrow> double) \<Rightarrow> int list" where
  "table8_vec input_scale input_zp output_scale output_zp func =
     fold (table8_step input_scale input_zp output_scale output_zp func) [- 256 .. 256] []"

definition getTosaConst8bitTable ::
    "Context \<Rightarrow> double \<Rightarrow> int \<Rightarrow> double \<Rightarrow> int \<Rightarrow> (double \<Rightarrow> double) \<Rightarrow> Value \<times> Context" where
  "getTosaConst8bitTable rewriter input_scale input_zp output_scale output_zp func =
     (let table_vec = table8_vec input_scale input_zp output_scale output_zp func;
          element_qtype = \<lparr>isSigned = True, storageTypeIntegralWidth = 16, expressedType = F32Type,
            scale = 1, zeroPoint = 0, storageTypeMin = - 32768, storageTypeMax = 32767\<rparr>;
          const_type = \<lparr>getShape = [513], getElementType = UniformQuantized element_qtype\<rparr>;
          storage_type = \<lparr>getShape = [513],
            getElementType = IntegerType (storageTypeIntegralWidth element_qtype)\<rparr>;
          const_attr = DenseElementsAttr storage_type table_vec
      in create rewriter (RankedTensor const_type) (Tosa_ConstOp const_attr))"

text \<open>The body of the sampling loop of \<open>getTosaConst16bitTable\<close>.\<close>

definition table16_entry ::
    "(double \<Rightarrow> double) \<Rightarrow> double \<Rightarrow> double \<Rightarrow> double \<Rightarrow> int \<Rightarrow> int" where
  "table16_entry func min_arg step half_step i =
     (let sample_val = s32 (std_llround (func (min_arg + of_int i * step) * 32768));
          midpoint_interp_val =
            std_round ((func (min_arg + of_int (s32 (i + 1)) * step) * 32768
                        + std_round (func (min_arg + of_int i * step) * 32768)) / 2);
          midpoint_val = std_round (func (min_arg + of_int i * step + half_step) * 32768);
          midpoint_err = midpoint_interp_val - midpoint_val;
          bias = s32 (std_llround (midpoint_err / 2))
      in s16 (min (max (s32 (sample_val - bias)) (- 32768)) 32767))"

definition table16_step ::
    "(double \<Rightarrow> double) \<Rightarrow> double \<Rightarrow> double \<Rightarrow> double \<Rightarrow> int \<Rightarrow> int list \<Rightarrow> int list" where
  "table16_step func min_arg step half_step i table_vec =
     table_vec @ [table16_entry func min_arg step half_step i]"

text \<open>
  The loop \<open>for (i = 0; i <= 512; i++)\<close>, from the empty vector, and the entry for \<open>max\<close>
  pushed after it.
\<close>

definition table16_vec :: "(double \<Rightarrow> double) \<Rightarrow> double \<Rightarrow> double \<Rightarrow> int list" where
  "table16_vec func min_arg max_arg =
     (let step = (max_arg - min_arg) / 512;
          half_step = step / 2;
          table_vec = fold (table16_step func min_arg step half_step) [0 .. 512] [];
          max_val = s32 (std_llround (func max_arg * 32768))
      in table_vec @ [s16 (min (max max_val (- 32768)) 32767)])"

definition getTosaConst16bitTable ::
    "Context \<Rightarrow> (double \<Rightarrow> double) \<Rightarrow> double \<Rightarrow> double \<Rightarrow> Value \<times> Context" where
  "getTosaConst16bitTable rewriter func min_arg max_arg =
     (let table_vec = table16_vec func min_arg max_arg;
          element_qtype = \<lparr>isSigned = True, storageTypeIntegralWidth = 16, expressedType = F32Type,
            scale = 1, zeroPoint = 0, storageTypeMin = - 32768, storageTypeMax = 32767\<rparr>;
          const_type = \<lparr>getShape = [513], getElementType = UniformQuantized element_qtype\<rparr>;
          storage_type = \<lparr>getShape = [513],
            getElementType = IntegerType (storageTypeIntegralWidth element_qtype)\<rparr>;
          const_attr = DenseElementsAttr storage_type table_vec
      in create rewriter (RankedTensor const_type) (Tosa_ConstOp const_attr))"

text \<open>
  The body of the loop of \<open>getTosaConst32bitTable\<close>: \<open>table32_rescaled\<close> is the value of
  \<open>rescaled\<close> after the test for \<open>2^31\<close>, \<open>table32_entries\<close> the pair stored for the loop
  index \<open>i\<close>. \<open>rescaled >> 16\<close> is the arithmetic shift \<open>drop_bit 16\<close>, \<open>& 0xFFFF\<close> keeps
  the low 16 bits. Both tables are \<open>std::array<int16_t, 513>\<close>, written at index \<open>i + 256\<close>;
  their initial contents are indeterminate, and every index is written.
\<close>

definition table32_rescaled :: "double \<Rightarrow> int" where
  "table32_rescaled transformed =
     (let output_inv_scale = 2 ^ 31;
          truncated = min (max transformed (- 1)) 1;
          rescaled = s64 (std_round_int (truncated * output_inv_scale))
      in if rescaled = 2 ^ 31 then 2 ^ 31 - 1 else rescaled)"

definition table32_entries :: "double \<Rightarrow> int \<Rightarrow> (double \<Rightarrow> double) \<Rightarrow> int \<Rightarrow> int \<times> int" where
  "table32_entries input_scale input_zp func i =
     (let dequantized = input_scale * of_int (s32 (i - input_zp));
          transformed = func dequantized;
          rescaled = table32_rescaled transformed;
          upper = s32 (and (drop_bit 16 rescaled) 0xFFFF);
          lower = s32 (and rescaled 0xFFFF - 0x8000)
      in (s16 upper, s16 lower))"

definition table32_step ::
    "double \<Rightarrow> int \<Rightarrow> (double \<Rightarrow> double) \<Rightarrow> int \<Rightarrow> int list \<times> int list \<Rightarrow> int list \<times> int list" where
  "table32_step input_scale input_zp func i arrays =
     (let (upper, lower) = table32_entries input_scale input_zp func i
      in ((fst arrays)[nat (i + 256) := upper], (snd arrays)[nat (i + 256) := lower]))"

definition table32_arrays ::
    "double \<Rightarrow> int \<Rightarrow> (double \<Rightarrow> double) \<Rightarrow> int list \<times> int list" where
  "table32_arrays input_scale input_zp func =
     fold (table32_step input_scale input_zp func) [- 256 .. 256]
       (replicate 513 0, replicate 513 0)"

definition getTosaConst32bitTable ::
    "Context \<Rightarrow> double \<Rightarrow> int \<Rightarrow> (double \<Rightarrow> double) \<Rightarrow> (Value \<times> Value) \<times> Context" where
  "getTosaConst32bitTable rewriter input_scale input_zp func =
     (let (upper_table_array, lower_table_array) = table32_arrays input_scale input_zp func;
          element_qtype = \<lparr>isSigned = True, storageTypeIntegralWidth = 16, expressedType = F32Type,
            scale = 1, zeroPoint = 0, storageTypeMin = - 32768, storageTypeMax = 32767\<rparr>;
          const_type = \<lparr>getShape = [513], getElementType = UniformQuantized element_qtype\<rparr>;
          storage_type = \<lparr>getShape = [513],
            getElementType = IntegerType (storageTypeIntegralWidth element_qtype)\<rparr>;
          upper_const_attr = DenseElementsAttr storage_type upper_table_array;
          lower_const_attr = DenseElementsAttr storage_type lower_table_array;
          (upper_const, rewriter1) = create rewriter (RankedTensor const_type) (Tosa_ConstOp upper_const_attr);
          (lower_const, rewriter2) = create rewriter1 (RankedTensor const_type) (Tosa_ConstOp lower_const_attr)
      in ((upper_const, lower_const), rewriter2))"

text \<open>
  The comment in the loop says how a consumer recovers the 32-bit value: the offset
  \<open>0x8000\<close> is added back to the lower entry, below the upper entry shifted by 16 bits.
\<close>

definition reassemble32 :: "int \<Rightarrow> int \<Rightarrow> int" where
  "reassemble32 upper lower = upper * 2 ^ 16 + (lower + 0x8000)"

text \<open>The values a table constant holds.\<close>

definition table_entries :: "Value \<Rightarrow> int list" where
  "table_entries v =
     (case getDefiningOp v of
        Some (Tosa_ConstOp (DenseElementsAttr t vals)) \<Rightarrow> vals
      | _ \<Rightarrow> [])"

section \<open>Padding of a transposed convolution\<close>

datatype Padding = VALID | SAME | EXPLICIT

type_synonym ArrayAttr = "Attribute list"

text \<open>
  \<open>getDimSize\<close> takes an \<open>unsigned\<close> index and asserts that it is below the rank;
  \<open>attrs[i].cast<IntegerAttr>().getInt()\<close> asserts that the index is inside the array and
  that the attribute is an integer attribute.
\<close>

definition getDimSize :: "RankedTensorType \<Rightarrow> int \<Rightarrow> fault + int" where
  "getDimSize t idx =
     (if nat (u32 idx) < length (getShape t) then Inr (getShape t ! nat (u32 idx))
      else Inl IndexOutOfBounds)"

definition getIntAt :: "ArrayAttr \<Rightarrow> int \<Rightarrow> fault + int" where
  "getIntAt attrs i =
     (if 0 \<le> i \<and> nat i < length attrs
      then (case attrs ! nat i of IntegerAttr v \<Rightarrow> Inr v | _ \<Rightarrow> Inl PreconditionViolation)
      else Inl IndexOutOfBounds)"

text \<open>C++ integer division truncates towards zero.\<close>

definition int_div :: "int \<Rightarrow> int \<Rightarrow> int" where
  "int_div a b = sgn a * sgn b * (\<bar>a\<bar> div \<bar>b\<bar>)"

text \<open>
  The body of the loop over the two spatial dimensions of
  \<open>getTransposeConv2dPaddingValues\<close>, returning the \<open>pad_before\<close> it pushes.
  \<open>GetTensorSpatialDimIndex\<close> is declared in the tensor-format header and is a parameter
  here, as is the type of the data format. The sizes, the stride and the dilation are
  \<open>int64_t\<close>; \<open>effective_filter_size\<close> and \<open>total_padding\<close> are \<open>int\<close>.
\<close>

definition transpose_pad_dim ::
    "(int \<Rightarrow> 'fmt \<Rightarrow> int \<Rightarrow> int) \<Rightarrow> 'fmt \<Rightarrow> int \<Rightarrow> RankedTensorType \<Rightarrow> RankedTensorType
       \<Rightarrow> RankedTensorType \<Rightarrow> ArrayAttr \<Rightarrow> ArrayAttr \<Rightarrow> int \<Rightarrow> fault + int" where
  "transpose_pad_dim GetTensorSpatialDimIndex data_format_tf first_filter_spatial_dim
       input_type filter_type output_type strides dilations i =
     (let ifm_dim = GetTensorSpatialDimIndex 4 data_format_tf i;
          ofm_dim = GetTensorSpatialDimIndex 4 data_format_tf i;
          filter_dim = u32 (first_filter_spatial_dim + i)
      in
      case getDimSize input_type ifm_dim of Inl e \<Rightarrow> Inl e | Inr ifm_size \<Rightarrow>
     (case getDimSize filter_type filter_dim of Inl e \<Rightarrow> Inl e | Inr filter_size \<Rightarrow>
     (case getDimSize output_type ofm_dim of Inl e \<Rightarrow> Inl e | Inr ofm_size \<Rightarrow>
     (case getIntAt dilations i of Inl e \<Rightarrow> Inl e | Inr dim_dilation \<Rightarrow>
     (case getIntAt strides i of Inl e \<Rightarrow> Inl e | Inr dim_stride \<Rightarrow>
        (let effective_filter_size = s32 (s64 (s64 (s64 (filter_size - 1) * dim_dilation) + 1));
             total_padding =
               s32 (s64 (s64 (s64 (s64 (ifm_size - 1) * dim_stride) + effective_filter_size)
                      - ofm_size));
             total_padding = (if total_padding > 0 then total_padding else 0);
             pad_before = int_div total_padding 2;
             pad_after = total_padding - pad_before
         in Inr pad_before))))))"

primrec transpose_pad_loop ::
    "(int \<Rightarrow> 'fmt \<Rightarrow> int \<Rightarrow> int) \<Rightarrow> 'fmt \<Rightarrow> int \<Rightarrow> RankedTensorType \<Rightarrow> RankedTensorType
       \<Rightarrow> RankedTensorType \<Rightarrow> ArrayAttr \<Rightarrow> ArrayAttr \<Rightarrow> int list \<Rightarrow> int list
       \<Rightarrow> fault + int list" where
  "transpose_pad_loop G data_format_tf first_filter_spatial_dim input_type filter_type
       output_type strides dilations [] computed_paddings = Inr computed_paddings"
| "transpose_pad_loop G data_format_tf first_filter_spatial_dim input_type filter_type
       output_type strides dilations (i # is) computed_paddings =
     (case transpose_pad_dim G data_format_tf first_filter_spatial_dim input_type filter_type
             output_type strides dilations i of
        Inl e \<Rightarrow> Inl e
      | Inr pad_before \<Rightarrow>
          transpose_pad_loop G data_format_tf first_filter_spatial_dim input_type filter_type
            output_type strides dilations is (computed_paddings @ [pad_before]))"

text \<open>
  The result is the returned flag together with the \<open>explicit_padding\<close> attribute the
  function stores through its reference parameter.
\<close>

definition getTransposeConv2dPaddingValues ::
    "(int \<Rightarrow> 'fmt \<Rightarrow> int \<Rightarrow> int) \<Rightarrow> Padding \<Rightarrow> 'fmt \<Rightarrow> int \<Rightarrow> RankedTensorType
       \<Rightarrow> RankedTensorType \<Rightarrow> RankedTensorType \<Rightarrow> ArrayAttr \<Rightarrow> ArrayAttr
       \<Rightarrow> fault + bool \<times> ArrayAttr" where
  "getTransposeConv2dPaddingValues G tf_pad data_format_tf first_filter_spatial_dim input_type
       filter_type output_type strides dilations =
     (if tf_pad = EXPLICIT then Inl PreconditionViolation
      else
        case transpose_pad_loop G data_format_tf first_filter_spatial_dim input_type filter_type
               output_type strides dilations [0, 1] [] of
          Inl e \<Rightarrow> Inl e
        | Inr computed_paddings \<Rightarrow> Inr (True, map IntegerAttr computed_paddings))"

text \<open>
  The formula of the specification for one spatial dimension, on unbounded integers.
\<close>

definition spec_effective_filter_size :: "int \<Rightarrow> int \<Rightarrow> int" where
  "spec_effective_filter_size filter_size dilation = (filter_size - 1) * dilation + 1"

definition spec_total_padding :: "int \<Rightarrow> int \<Rightarrow> int \<Rightarrow> int \<Rightarrow> int \<Rightarrow> int" where
  "spec_total_padding input_size filter_size output_size stride dilation =
     max 0 ((input_size - 1) * stride + spec_effective_filter_size filter_size dilation
            - output_size)"

definition spec_pad_before :: "int \<Rightarrow> int \<Rightarrow> int \<Rightarrow> int \<Rightarrow> int \<Rightarrow> int" where
  "spec_pad_before input_size filter_size output_size stride dilation =
     spec_total_padding input_size filter_size output_size stride dilation div 2"

section \<open>Stripping the quantization of a bias constant\<close>

definition dyn_cast_ElementsAttr :: "Attribute \<Rightarrow> Attribute option" where
  "dyn_cast_ElementsAttr a = (case a of DenseElementsAttr t vals \<Rightarrow> Some a | _ \<Rightarrow> None)"

text \<open>
  \<open>dyn_cast<QuantizedType>\<close> succeeds on every quantized element type; the only thing
  the caller reads from the result is the width of the storage type.
\<close>

definition dyn_cast_QuantizedType :: "ElementType \<Rightarrow> nat option" where
  "dyn_cast_QuantizedType t =
     (case t of
        UniformQuantized q \<Rightarrow> Some (storageTypeIntegralWidth q)
      | UniformQuantizedPerAxis q \<Rightarrow> Some (pa_storageTypeIntegralWidth q)
      | OtherQuantized w \<Rightarrow> Some w
      | _ \<Rightarrow> None)"

definition getDefiningOpConstElementsAttr :: "Value \<Rightarrow> Attribute option" where
  "getDefiningOpConstElementsAttr input =
     (case getDefiningOp input of
        None \<Rightarrow> None
      | Some (TFL_QConstOp a) \<Rightarrow> dyn_cast_ElementsAttr a
      | Some (Tosa_ConstOp a) \<Rightarrow> dyn_cast_ElementsAttr a
      | Some _ \<Rightarrow> None)"

definition getUnquantizedBias :: "Context \<Rightarrow> Value \<Rightarrow> fault + Value \<times> Context" where
  "getUnquantizedBias rewriter input =
     (case dyn_cast_RankedTensorType (getType input) of
        None \<Rightarrow> Inl PreconditionViolation
      | Some input_type \<Rightarrow>
          (let input_element_type = getElementType input_type;
               input_element_qtype = dyn_cast_QuantizedType input_element_type;
               input_value_attr = getDefiningOpConstElementsAttr input
           in
           case (input_element_qtype, input_value_attr) of
             (Some width, Some attr) \<Rightarrow>
               (let output_type = \<lparr>getShape = getShape input_type,
                                   getElementType = IntegerType width\<rparr>
                in Inr (create rewriter (RankedTensor output_type) (Tosa_ConstOp attr)))
           | _ \<Rightarrow> Inr (input, rewriter)))"

section \<open>Properties\<close>

subsection \<open>Machine numbers\<close>

text \<open>A value inside the range of a type is not changed by a conversion to it.\<close>

lemma s16_id: "- 32768 \<le> x \<Longrightarrow> x \<le> 32767 \<Longrightarrow> s16 x = x"
  by (simp add: s16_def)

lemma s32_id: "- 2147483648 \<le> x \<Longrightarrow> x \<le> 2147483647 \<Longrightarrow> s32 x = x"
  by (simp add: s32_def)

lemma s64_id: "- 9223372036854775808 \<le> x \<Longrightarrow> x \<le> 9223372036854775807 \<Longrightarrow> s64 x = x"
  by (simp add: s64_def)

lemma s16_clamp: "s16 (min (max q (- 32768)) 32767) = min (max q (- 32768)) 32767"
  by (rule s16_id) simp_all

subsection \<open>The sampling loops\<close>

text \<open>
  The 8-bit and the 16-bit loop append one entry per index; the 32-bit loop writes every
  index of its two arrays once.
\<close>

lemma fold_table8: "fold (table8_step a b c d f) xs acc = acc @ map (table8_entry a b c d f) xs"
  by (induction xs arbitrary: acc) (simp_all add: table8_step_def)

lemma fold_table16: "fold (table16_step f m st hs) xs acc = acc @ map (table16_entry f m st hs) xs"
  by (induction xs arbitrary: acc) (simp_all add: table16_step_def)

lemma table8_vec_map: "table8_vec a b c d f = map (table8_entry a b c d f) [- 256 .. 256]"
  by (simp add: table8_vec_def fold_table8 del: upto_rec_numeral)

lemma length_table8_vec: "length (table8_vec a b c d f) = 513"
  by (simp add: table8_vec_map del: upto_rec_numeral)

lemma table16_vec_map: "table16_vec f mn mx =
   map (table16_entry f mn ((mx - mn) / 512) ((mx - mn) / 512 / 2)) [0 .. 512]
     @ [s16 (min (max (s32 (std_llround (f mx * 32768))) (- 32768)) 32767)]"
  by (simp add: table16_vec_def fold_table16 Let_def del: upto_rec_numeral)

lemma length_table16_vec: "length (table16_vec f mn mx) = 514"
  by (simp add: table16_vec_map del: upto_rec_numeral)

lemma table8_entry_range: "- 32768 \<le> table8_entry a b c d f i \<and> table8_entry a b c d f i \<le> 32767"
  unfolding table8_entry_def Let_def s16_clamp by simp

lemma table16_entry_range: "- 32768 \<le> table16_entry f m st hs i \<and> table16_entry f m st hs i \<le> 32767"
  unfolding table16_entry_def Let_def s16_clamp by simp

lemma and_0xFFFF: "and (x::int) 65535 = x mod 65536"
proof -
  have "(65535::int) = mask 16" by (simp add: mask_eq_exp_minus_1)
  then show ?thesis by (simp only: flip: take_bit_eq_mask) (simp add: take_bit_eq_mod)
qed

lemma length_fold_table32:
  "length (fst (fold (table32_step a b f) xs arrs)) = length (fst arrs)
   \<and> length (snd (fold (table32_step a b f) xs arrs)) = length (snd arrs)"
  by (induction xs arbitrary: arrs) (simp_all add: table32_step_def split: prod.splits)

lemma fold_table32_other:
  "i \<notin> set xs \<Longrightarrow> - 256 \<le> i \<Longrightarrow> \<forall>x\<in>set xs. - 256 \<le> x \<Longrightarrow>
     fst (fold (table32_step a b f) xs arrs) ! nat (i + 256) = fst arrs ! nat (i + 256)
   \<and> snd (fold (table32_step a b f) xs arrs) ! nat (i + 256) = snd arrs ! nat (i + 256)"
proof (induction xs arbitrary: arrs)
  case Nil
  then show ?case by simp
next
  case (Cons x xs)
  have ne: "nat (x + 256) \<noteq> nat (i + 256)" using Cons.prems by auto
  have "fst (table32_step a b f x arrs) ! nat (i + 256) = fst arrs ! nat (i + 256)
      \<and> snd (table32_step a b f x arrs) ! nat (i + 256) = snd arrs ! nat (i + 256)"
    using ne by (simp add: table32_step_def split: prod.splits)
  moreover have "fst (fold (table32_step a b f) xs (table32_step a b f x arrs)) ! nat (i + 256)
        = fst (table32_step a b f x arrs) ! nat (i + 256)
      \<and> snd (fold (table32_step a b f) xs (table32_step a b f x arrs)) ! nat (i + 256)
        = snd (table32_step a b f x arrs) ! nat (i + 256)"
    using Cons.prems by (intro Cons.IH) auto
  ultimately show ?case by simp
qed

lemma fold_table32_nth:
  "distinct xs \<Longrightarrow> i \<in> set xs \<Longrightarrow> \<forall>x\<in>set xs. - 256 \<le> x \<Longrightarrow>
   nat (i + 256) < length (fst arrs) \<Longrightarrow> nat (i + 256) < length (snd arrs) \<Longrightarrow>
     fst (fold (table32_step a b f) xs arrs) ! nat (i + 256) = fst (table32_entries a b f i)
   \<and> snd (fold (table32_step a b f) xs arrs) ! nat (i + 256) = snd (table32_entries a b f i)"
proof (induction xs arbitrary: arrs)
  case Nil
  then show ?case by simp
next
  case (Cons x xs)
  show ?case
  proof (cases "i = x")
    case True
    then have "i \<notin> set xs" using Cons.prems by simp
    then have "fst (fold (table32_step a b f) xs (table32_step a b f x arrs)) ! nat (i + 256)
        = fst (table32_step a b f x arrs) ! nat (i + 256)
      \<and> snd (fold (table32_step a b f) xs (table32_step a b f x arrs)) ! nat (i + 256)
        = snd (table32_step a b f x arrs) ! nat (i + 256)"
      using Cons.prems by (intro fold_table32_other) auto
    moreover have "fst (table32_step a b f x arrs) ! nat (i + 256) = fst (table32_entries a b f i)
      \<and> snd (table32_step a b f x arrs) ! nat (i + 256) = snd (table32_entries a b f i)"
      using True Cons.prems by (simp add: table32_step_def split: prod.splits)
    ultimately show ?thesis by simp
  next
    case False
    have "fst (fold (table32_step a b f) xs (table32_step a b f x arrs)) ! nat (i + 256)
            = fst (table32_entries a b f i)
        \<and> snd (fold (table32_step a b f) xs (table32_step a b f x arrs)) ! nat (i + 256)
            = snd (table32_entries a b f i)"
      using False Cons.prems
      by (intro Cons.IH) (auto simp: table32_step_def split: prod.splits)
    then show ?thesis by simp
  qed
qed

lemma length_table32_arrays:
  "length (fst (table32_arrays a b f)) = 513 \<and> length (snd (table32_arrays a b f)) = 513"
  unfolding table32_arrays_def using length_fold_table32 [of a b f "[- 256 .. 256]" "(replicate 513 0, replicate 513 0)"]
  by (simp del: upto_rec_numeral)

lemma table32_arrays_nth:
  assumes "k < 513"
  shows "fst (table32_arrays a b f) ! k = fst (table32_entries a b f (int k - 256))
       \<and> snd (table32_arrays a b f) ! k = snd (table32_entries a b f (int k - 256))"
proof -
  have "nat (int k - 256 + 256) = k" by simp
  moreover have "fst (fold (table32_step a b f) [- 256 .. 256] (replicate 513 0, replicate 513 0))
           ! nat (int k - 256 + 256) = fst (table32_entries a b f (int k - 256))
     \<and> snd (fold (table32_step a b f) [- 256 .. 256] (replicate 513 0, replicate 513 0))
           ! nat (int k - 256 + 256) = snd (table32_entries a b f (int k - 256))"
    using assms by (intro fold_table32_nth) (auto simp del: upto_rec_numeral)
  ultimately show ?thesis by (simp add: table32_arrays_def del: upto_rec_numeral)
qed

subsection \<open>The 32-bit quantization and its split into half-words\<close>

lemma std_round_int_bounds:
  assumes "- 2147483648 \<le> x" "x \<le> 2147483648"
  shows "- 2147483648 \<le> std_round_int x \<and> std_round_int x \<le> 2147483648"
proof (cases "0 \<le> x")
  case True
  have "\<lfloor>x + 1 / 2\<rfloor> \<le> \<lfloor>(2147483648::real) + 1 / 2\<rfloor>" using assms by (intro floor_mono) simp
  moreover have "\<lfloor>(2147483648::real) + 1 / 2\<rfloor> = 2147483648" by linarith
  moreover have "0 \<le> \<lfloor>x + 1 / 2\<rfloor>" using True by simp
  ultimately show ?thesis using True by (simp add: std_round_int_def)
next
  case False
  have "\<lceil>(- 2147483648::real) - 1 / 2\<rceil> \<le> \<lceil>x - 1 / 2\<rceil>" using assms by (intro ceiling_mono) simp
  moreover have "\<lceil>(- 2147483648::real) - 1 / 2\<rceil> = - 2147483648" by linarith
  moreover have "\<lceil>x - 1 / 2\<rceil> \<le> 0" using False by (simp add: ceiling_le_iff)
  ultimately show ?thesis using False by (simp add: std_round_int_def)
qed

lemma table32_rescaled_range:
  "- 2147483648 \<le> table32_rescaled t \<and> table32_rescaled t \<le> 2147483647"
proof -
  define tr where "tr = min (max t (- 1)) (1::real)"
  have "- 1 \<le> tr" "tr \<le> 1" by (simp_all add: tr_def)
  then have "- 2147483648 \<le> tr * 2147483648" "tr * 2147483648 \<le> 2147483648" by simp_all
  then have b: "- 2147483648 \<le> std_round_int (tr * 2147483648)"
     "std_round_int (tr * 2147483648) \<le> 2147483648"
    using std_round_int_bounds by blast+
  then have "s64 (std_round_int (tr * 2147483648)) = std_round_int (tr * 2147483648)"
    by (intro s64_id) simp_all
  then show ?thesis using b by (simp add: table32_rescaled_def Let_def tr_def)
qed

lemma table32_rescaled_plus_one: "1 \<le> t \<Longrightarrow> table32_rescaled t = 2147483647"
  by (simp add: table32_rescaled_def Let_def std_round_int_def s64_def)

lemma table32_rescaled_minus_one: "t \<le> - 1 \<Longrightarrow> table32_rescaled t = - 2147483648"
  by (simp add: table32_rescaled_def Let_def std_round_int_def s64_def max_def min_def)

lemma reassemble32_split:
  assumes "- 2147483648 \<le> r" "r \<le> 2147483647"
  shows "reassemble32 (s16 (s32 (and (drop_bit 16 r) 0xFFFF))) (s16 (s32 (and r 0xFFFF - 0x8000))) = r"
proof -
  have u: "and (drop_bit 16 r) 65535 = (r div 65536) mod 65536"
    by (simp add: and_0xFFFF drop_bit_eq_div)
  have l: "and r 65535 = r mod 65536" by (rule and_0xFFFF)
  have d: "- 32768 \<le> r div 65536" "r div 65536 \<le> 32767" using assms by linarith+
  have m: "0 \<le> (r div 65536) mod 65536" "(r div 65536) mod 65536 < 65536" by simp_all
  have "s32 ((r div 65536) mod 65536) = (r div 65536) mod 65536"
    using m by (intro s32_id) linarith+
  moreover have "s16 ((r div 65536) mod 65536) = r div 65536"
  proof -
    have "((r div 65536) mod 65536 + 32768) mod 65536 = (r div 65536 + 32768) mod 65536"
      by (simp add: mod_add_left_eq)
    also have "\<dots> = r div 65536 + 32768" using d by (intro mod_pos_pos_trivial) linarith+
    finally show ?thesis by (simp add: s16_def)
  qed
  ultimately have "s16 (s32 ((r div 65536) mod 65536)) = r div 65536" by simp
  moreover have "s16 (s32 (r mod 65536 - 32768)) = r mod 65536 - 32768"
  proof -
    have m2: "0 \<le> r mod 65536" "r mod 65536 < 65536" by simp_all
    have "s32 (r mod 65536 - 32768) = r mod 65536 - 32768" using m2 by (intro s32_id) linarith+
    moreover have "s16 (r mod 65536 - 32768) = r mod 65536 - 32768" using m2 by (intro s16_id) linarith+
    ultimately show ?thesis by simp
  qed
  ultimately show ?thesis by (simp add: u l reassemble32_def)
qed


subsection \<open>The table constants\<close>

lemma table_entries_8bit:
  "table_entries (fst (getTosaConst8bitTable rewriter a b c d f)) = table8_vec a b c d f"
  by (simp add: getTosaConst8bitTable_def create_def table_entries_def Let_def)

lemma table_entries_16bit:
  "table_entries (fst (getTosaConst16bitTable rewriter f mn mx)) = table16_vec f mn mx"
  by (simp add: getTosaConst16bitTable_def create_def table_entries_def Let_def)

lemma table_entries_32bit:
  "table_entries (fst (fst (getTosaConst32bitTable rewriter a b f))) = fst (table32_arrays a b f)
 \<and> table_entries (snd (fst (getTosaConst32bitTable rewriter a b f))) = snd (table32_arrays a b f)"
  by (simp add: getTosaConst32bitTable_def create_def table_entries_def Let_def split: prod.splits)

lemma getTosaConst8bitTable_length:
  "length (table_entries (fst (getTosaConst8bitTable rewriter a b c d f))) = 513"
  by (simp add: table_entries_8bit length_table8_vec)

lemma getTosaConst32bitTable_length:
  "length (table_entries (fst (fst (getTosaConst32bitTable rewriter a b f)))) = 513
 \<and> length (table_entries (snd (fst (getTosaConst32bitTable rewriter a b f)))) = 513"
  by (simp add: table_entries_32bit length_table32_arrays)

text \<open>
  Claim C1 (every table builder yields exactly 513 entries). The 8-bit and the 32-bit
  builder do (\<open>getTosaConst8bitTable_length\<close>, \<open>getTosaConst32bitTable_length\<close>). The
  16-bit builder does not: its loop runs for \<open>i = 0, \<dots>, 512\<close> and pushes 513 entries, and
  the entry for \<open>max\<close> is pushed after it, so the vector handed to the constant of declared
  shape \<open>[513]\<close> has 514 entries, for every sampling function and every domain.
\<close>

theorem getTosaConst16bitTable_length:
  "length (table_entries (fst (getTosaConst16bitTable rewriter func min_arg max_arg))) = 514"
  by (simp add: table_entries_16bit length_table16_vec)

lemma table8_vec_nth:
  "k < 513 \<Longrightarrow> table8_vec a b c d f ! k = table8_entry a b c d f (int k - 256)"
  by (simp add: table8_vec_map del: upto_rec_numeral)

lemma table16_vec_last:
  "table16_vec f mn mx ! 513 = s16 (min (max (s32 (std_llround (f mx * 32768))) (- 32768)) 32767)"
  by (simp add: table16_vec_map nth_append del: upto_rec_numeral)

lemma table8_vec_range:
  assumes "e \<in> set (table8_vec a b c d f)"
  shows "- 32768 \<le> e \<and> e \<le> 32767"
proof -
  from assms obtain i where "e = table8_entry a b c d f i"
    by (auto simp: table8_vec_map simp del: upto_rec_numeral)
  then show ?thesis using table8_entry_range by simp
qed

lemma table16_vec_range:
  assumes "e \<in> set (table16_vec f mn mx)"
  shows "- 32768 \<le> e \<and> e \<le> 32767"
proof -
  from assms consider i where "e = table16_entry f mn ((mx - mn) / 512) ((mx - mn) / 512 / 2) i"
    | "e = s16 (min (max (s32 (std_llround (f mx * 32768))) (- 32768)) 32767)"
    by (auto simp: table16_vec_map simp del: upto_rec_numeral)
  then show ?thesis
  proof cases
    case 1
    then show ?thesis using table16_entry_range by simp
  next
    case 2
    then show ?thesis unfolding s16_clamp by simp
  qed
qed

text \<open>
  Claim C5: whatever the sampling function returns, every entry stored by the 8-bit and by
  the 16-bit table builder lies in the signed 16-bit range \<open>[-32768, 32767]\<close>: the value
  is clamped as a 32-bit integer before it is narrowed to \<open>int16_t\<close>.
\<close>

theorem table_entries_within_int16:
  "(\<forall>e \<in> set (table_entries (fst (getTosaConst8bitTable rewriter input_scale input_zp
                 output_scale output_zp func))). - 32768 \<le> e \<and> e \<le> 32767)
 \<and> (\<forall>e \<in> set (table_entries (fst (getTosaConst16bitTable rewriter' func' min_arg max_arg))).
        - 32768 \<le> e \<and> e \<le> 32767)"
  unfolding table_entries_8bit table_entries_16bit
  using table8_vec_range table16_vec_range by blast

lemma std_llround_1e9: "std_llround 1000000000 = 1000000000"
  by (simp add: std_llround_def std_round_int_def s64_def)

lemma std_llround_big: "std_llround 32768000000000 = 32768000000000"
  by (simp add: std_llround_def std_round_int_def s64_def)

text \<open>
  The claim at the function that returns \<open>1e9\<close> everywhere: the first entry of the 8-bit
  table and the last entry of the 16-bit table are both \<open>32767\<close>.
\<close>

theorem table_entries_within_int16_witness:
  "table_entries (fst (getTosaConst8bitTable \<lparr>created = [], diagnostics = []\<rparr> 1 0 1 0
       (\<lambda>x. 1000000000))) ! 0 = 32767
 \<and> table_entries (fst (getTosaConst16bitTable \<lparr>created = [], diagnostics = []\<rparr>
       (\<lambda>x. 1000000000) 0 1)) ! 513 = 32767
 \<and> - 32768 \<le> table_entries (fst (getTosaConst8bitTable \<lparr>created = [], diagnostics = []\<rparr> 1 0 1 0
       (\<lambda>x. 1000000000))) ! 0
 \<and> table_entries (fst (getTosaConst16bitTable \<lparr>created = [], diagnostics = []\<rparr>
       (\<lambda>x. 1000000000) 0 1)) ! 513 \<le> 32767"
proof -
  let ?t8 = "table_entries (fst (getTosaConst8bitTable \<lparr>created = [], diagnostics = []\<rparr> 1 0 1 0
       (\<lambda>x. 1000000000)))"
  let ?t16 = "table_entries (fst (getTosaConst16bitTable \<lparr>created = [], diagnostics = []\<rparr>
       (\<lambda>x. 1000000000) 0 1))"
  have m8: "?t8 ! 0 \<in> set ?t8" by (intro nth_mem) (simp add: getTosaConst8bitTable_length)
  have m16: "?t16 ! 513 \<in> set ?t16"
    by (intro nth_mem) (simp add: table_entries_16bit length_table16_vec)
  have v8: "?t8 ! 0 = 32767"
    by (simp add: table_entries_8bit table8_vec_nth table8_entry_def std_llround_1e9 s32_def s16_def)
  have v16: "?t16 ! 513 = 32767"
    by (simp add: table_entries_16bit table16_vec_last std_llround_big s32_def s16_def)
  from table_entries_within_int16 [of "\<lparr>created = [], diagnostics = []\<rparr>" 1 0 1 0
         "\<lambda>x. 1000000000" "\<lparr>created = [], diagnostics = []\<rparr>" "\<lambda>x. 1000000000" 0 1] m8 m16
  have "- 32768 \<le> ?t8 ! 0 \<and> ?t8 ! 0 \<le> 32767" "- 32768 \<le> ?t16 ! 513 \<and> ?t16 ! 513 \<le> 32767"
    by blast+
  then show ?thesis using v8 v16 by simp
qed

subsection \<open>The scale policy and the rescale from 32-bit integers\<close>

text \<open>
  Claim C6: \<open>isScale32\<close> holds exactly when the storage width of the output element type
  is 8 bits; every other width selects the 16-bit scale path.
\<close>

theorem isScale32_iff_width_8:
  "isScale32 output_element_type \<longleftrightarrow> storageTypeIntegralWidth output_element_type = 8"
  by (simp add: isScale32_def)


text \<open>
  Claim C7: \<open>buildRescaleFromInt32\<close> requires the element type of its input to be the
  32-bit integer type. Where the input is not a ranked tensor of that element type the
  assertion fails and no operation is built; where it is, the call appends one rescale
  operation whose input zero point is 0, with double rounding and the 32-bit scale path.
\<close>

theorem buildRescaleFromInt32_contract:
  "((\<nexists>shape. getType input_val
        = RankedTensor \<lparr>getShape = shape, getElementType = IntegerType 32\<rparr>)
    \<longrightarrow> buildRescaleFromInt32 cms rewriter output_type input_val output_scale output_zp
          = Inl PreconditionViolation)
 \<and> ((\<exists>shape. getType input_val
        = RankedTensor \<lparr>getShape = shape, getElementType = IntegerType 32\<rparr>)
    \<longrightarrow> (\<exists>r. buildRescaleFromInt32 cms rewriter output_type input_val output_scale output_zp
              = Inr (Value (RankedTensor output_type) (Some (Tosa_RescaleOp r)),
                     rewriter\<lparr>created := created rewriter @ [Tosa_RescaleOp r]\<rparr>)
            \<and> rs_input r = input_val \<and> rs_output_type r = output_type
            \<and> rs_input_zp r = 0 \<and> rs_output_zp r = s32 output_zp
            \<and> rs_multiplier r = [fst (cms output_scale 32)]
            \<and> rs_shift r = [snd (cms output_scale 32)]
            \<and> rs_double_round r \<and> rs_scale32 r \<and> \<not> rs_per_channel r))"
proof (cases "getType input_val")
  case OtherType
  then show ?thesis
    by (simp add: buildRescaleFromInt32_def dyn_cast_RankedTensorType_def)
next
  case (RankedTensor t)
  show ?thesis
  proof (cases "getElementType t = IntegerType 32")
    case True
    then have t: "t = \<lparr>getShape = getShape t, getElementType = IntegerType 32\<rparr>" by (cases t) simp
    have "\<exists>shape. getType input_val
        = RankedTensor \<lparr>getShape = shape, getElementType = IntegerType 32\<rparr>"
      using RankedTensor t by metis
    moreover have "buildRescaleFromInt32 cms rewriter output_type input_val output_scale output_zp
       = Inr (buildRescale cms rewriter output_type input_val output_scale 0 output_zp True True)"
      using RankedTensor True
      by (simp add: buildRescaleFromInt32_def dyn_cast_RankedTensorType_def isInteger_def)
    ultimately show ?thesis
      by (simp add: buildRescale_def create_def s32_def Let_def split: prod.splits)
  next
    case False
    then have "\<nexists>shape. getType input_val
        = RankedTensor \<lparr>getShape = shape, getElementType = IntegerType 32\<rparr>"
      using RankedTensor by auto
    moreover have "buildRescaleFromInt32 cms rewriter output_type input_val output_scale output_zp
       = Inl PreconditionViolation"
      using RankedTensor False
      by (auto simp: buildRescaleFromInt32_def dyn_cast_RankedTensorType_def isInteger_def
          split: ElementType.splits)
    ultimately show ?thesis by simp
  qed
qed

text \<open>Both cases at concrete inputs: a 16-bit integer tensor and a 32-bit integer tensor.\<close>

theorem buildRescaleFromInt32_contract_witness:
  "buildRescaleFromInt32 (\<lambda>s w. (1073741824, 30)) \<lparr>created = [], diagnostics = []\<rparr>
      \<lparr>getShape = [2], getElementType = IntegerType 8\<rparr>
      (Value (RankedTensor \<lparr>getShape = [2], getElementType = IntegerType 16\<rparr>) None) 1 5
     = Inl PreconditionViolation
 \<and> (\<exists>r. buildRescaleFromInt32 (\<lambda>s w. (1073741824, 30)) \<lparr>created = [], diagnostics = []\<rparr>
      \<lparr>getShape = [2], getElementType = IntegerType 8\<rparr>
      (Value (RankedTensor \<lparr>getShape = [2], getElementType = IntegerType 32\<rparr>) None) 1 5
     = Inr (Value (RankedTensor \<lparr>getShape = [2], getElementType = IntegerType 8\<rparr>)
              (Some (Tosa_RescaleOp r)),
            \<lparr>created = [Tosa_RescaleOp r], diagnostics = []\<rparr>)
      \<and> rs_input_zp r = 0 \<and> rs_output_zp r = 5 \<and> rs_double_round r \<and> rs_scale32 r)"
proof -
  have "buildRescaleFromInt32 (\<lambda>s w. (1073741824, 30)) \<lparr>created = [], diagnostics = []\<rparr>
      \<lparr>getShape = [2], getElementType = IntegerType 8\<rparr>
      (Value (RankedTensor \<lparr>getShape = [2], getElementType = IntegerType 16\<rparr>) None) 1 5
     = Inl PreconditionViolation"
    using buildRescaleFromInt32_contract [of
      "Value (RankedTensor \<lparr>getShape = [2], getElementType = IntegerType 16\<rparr>) None"
      "\<lambda>s w. (1073741824, 30)" "\<lparr>created = [], diagnostics = []\<rparr>"
      "\<lparr>getShape = [2], getElementType = IntegerType 8\<rparr>" 1 5]
    by simp
  moreover obtain r where
    "buildRescaleFromInt32 (\<lambda>s w. (1073741824, 30)) \<lparr>created = [], diagnostics = []\<rparr>
      \<lparr>getShape = [2], getElementType = IntegerType 8\<rparr>
      (Value (RankedTensor \<lparr>getShape = [2], getElementType = IntegerType 32\<rparr>) None) 1 5
     = Inr (Value (RankedTensor \<lparr>getShape = [2], getElementType = IntegerType 8\<rparr>)
              (Some (Tosa_RescaleOp r)),
            \<lparr>created = [], diagnostics = []\<rparr>\<lparr>created := created \<lparr>created = [], diagnostics = []\<rparr> @ [Tosa_RescaleOp r]\<rparr>)"
    "rs_input_zp r = 0" "rs_output_zp r = s32 5" "rs_double_round r" "rs_scale32 r"
    using buildRescaleFromInt32_contract [of
      "Value (RankedTensor \<lparr>getShape = [2], getElementType = IntegerType 32\<rparr>) None"
      "\<lambda>s w. (1073741824, 30)" "\<lparr>created = [], diagnostics = []\<rparr>"
      "\<lparr>getShape = [2], getElementType = IntegerType 8\<rparr>" 1 5]
    by auto
  ultimately show ?thesis by (auto simp: s32_def)
qed


subsection \<open>The range of the 32-bit table\<close>

lemma table32_reassembled_eq:
  assumes "k < 513"
  shows "reassemble32
           (table_entries (fst (fst (getTosaConst32bitTable rewriter input_scale input_zp func))) ! k)
           (table_entries (snd (fst (getTosaConst32bitTable rewriter input_scale input_zp func))) ! k)
         = table32_rescaled (func (input_scale * of_int (s32 (int k - 256 - input_zp))))"
proof -
  let ?r = "table32_rescaled (func (input_scale * of_int (s32 (int k - 256 - input_zp))))"
  have "reassemble32 (s16 (s32 (and (drop_bit 16 ?r) 0xFFFF))) (s16 (s32 (and ?r 0xFFFF - 0x8000))) = ?r"
    using table32_rescaled_range by (intro reassemble32_split) simp_all
  then show ?thesis
    using assms by (simp add: table_entries_32bit table32_arrays_nth table32_entries_def Let_def)
qed

text \<open>
  Claim C4, as the code has it: for every sampling function, input scale and input zero
  point, the value reassembled from the upper and the lower entry at any index lies in the
  signed 32-bit range \<open>[-2^31, 2^31 - 1]\<close>. It never exceeds \<open>2^31 - 1\<close>: a transformed
  value of \<open>+1.0\<close> or more, which quantizes to \<open>2^31\<close>, is stored as \<open>2^31 - 1\<close>. At the
  negative end a transformed value of \<open>-1.0\<close> or less is stored as \<open>-2^31\<close>, whose
  magnitude is \<open>2^31\<close>.
\<close>

theorem getTosaConst32bitTable_reassembled_range:
  assumes "k < 513"
  shows "- (2 ^ 31) \<le> reassemble32
           (table_entries (fst (fst (getTosaConst32bitTable rewriter input_scale input_zp func))) ! k)
           (table_entries (snd (fst (getTosaConst32bitTable rewriter input_scale input_zp func))) ! k)
       \<and> reassemble32
           (table_entries (fst (fst (getTosaConst32bitTable rewriter input_scale input_zp func))) ! k)
           (table_entries (snd (fst (getTosaConst32bitTable rewriter input_scale input_zp func))) ! k)
         \<le> 2 ^ 31 - 1
       \<and> (1 \<le> func (input_scale * of_int (s32 (int k - 256 - input_zp))) \<longrightarrow>
          reassemble32
           (table_entries (fst (fst (getTosaConst32bitTable rewriter input_scale input_zp func))) ! k)
           (table_entries (snd (fst (getTosaConst32bitTable rewriter input_scale input_zp func))) ! k)
          = 2 ^ 31 - 1)
       \<and> (func (input_scale * of_int (s32 (int k - 256 - input_zp))) \<le> - 1 \<longrightarrow>
          reassemble32
           (table_entries (fst (fst (getTosaConst32bitTable rewriter input_scale input_zp func))) ! k)
           (table_entries (snd (fst (getTosaConst32bitTable rewriter input_scale input_zp func))) ! k)
          = - (2 ^ 31))"
  unfolding table32_reassembled_eq [OF assms]
  using table32_rescaled_range table32_rescaled_plus_one table32_rescaled_minus_one
  by simp

text \<open>
  With the identity as sampling function, scale 1 and zero point 0, index 257 samples
  \<open>+1.0\<close> and index 0 samples \<open>-256.0\<close>.
\<close>

theorem getTosaConst32bitTable_reassembled_range_witness:
  "reassemble32
     (table_entries (fst (fst (getTosaConst32bitTable \<lparr>created = [], diagnostics = []\<rparr> 1 0 id))) ! 257)
     (table_entries (snd (fst (getTosaConst32bitTable \<lparr>created = [], diagnostics = []\<rparr> 1 0 id))) ! 257)
   = 2147483647
 \<and> reassemble32
     (table_entries (fst (fst (getTosaConst32bitTable \<lparr>created = [], diagnostics = []\<rparr> 1 0 id))) ! 0)
     (table_entries (snd (fst (getTosaConst32bitTable \<lparr>created = [], diagnostics = []\<rparr> 1 0 id))) ! 0)
   = - 2147483648"
  using getTosaConst32bitTable_reassembled_range [where k = 257 and rewriter = "\<lparr>created = [], diagnostics = []\<rparr>" and func = id
        and input_scale = 1 and input_zp = 0]
    getTosaConst32bitTable_reassembled_range [where k = 0 and rewriter = "\<lparr>created = [], diagnostics = []\<rparr>" and func = id
        and input_scale = 1 and input_zp = 0]
  by (simp add: s32_def)

text \<open>
  The claim as stated bounds the magnitude by \<open>2^31 - 1\<close>; that fails where the sampled
  value is \<open>-1.0\<close> (index 255 of the same table).
\<close>

theorem getTosaConst32bitTable_magnitude_counterexample:
  "2 ^ 31 - 1 < \<bar>reassemble32
     (table_entries (fst (fst (getTosaConst32bitTable \<lparr>created = [], diagnostics = []\<rparr> 1 0 id))) ! 255)
     (table_entries (snd (fst (getTosaConst32bitTable \<lparr>created = [], diagnostics = []\<rparr> 1 0 id))) ! 255)\<bar>"
proof -
  have "table32_rescaled (id (1 * of_int (s32 (int 255 - 256 - 0)))) = - 2147483648"
    by (intro table32_rescaled_minus_one) (simp add: s32_def)
  then show ?thesis by (simp add: table32_reassembled_eq)
qed


subsection \<open>The rescale of a convolution output\<close>

lemma conv_channel_loop_ok:
  "\<forall>oc \<in> set ocs. oc < length ws \<Longrightarrow>
   conv_channel_loop cms i_s o_s w ws ocs arrs
     = Inr (fst arrs @ map (\<lambda>oc. fst (cms ((i_s * ws ! oc) / o_s) w)) ocs,
            snd arrs @ map (\<lambda>oc. snd (cms ((i_s * ws ! oc) / o_s) w)) ocs)"
  by (induction ocs arbitrary: arrs) (simp_all add: Let_def case_prod_beta)

lemma conv_channel_loop_fault:
  "\<exists>oc \<in> set ocs. \<not> oc < length ws \<Longrightarrow>
   conv_channel_loop cms i_s o_s w ws ocs arrs = Inl IndexOutOfBounds"
  by (induction ocs arbitrary: arrs) (auto simp: Let_def case_prod_beta)

lemma buildRescaleOpConvOutput_per_tensor:
  assumes "getElementType input_type = UniformQuantized input_qtype"
    and "getElementType output_type = UniformQuantized output_qtype"
    and "getElementType weight_type = UniformQuantized weight_qtype"
  shows "buildRescaleOpConvOutput cms rewriter conv_val input_type weight_type output_type
     = (let w = (if storageTypeIntegralWidth output_qtype = 8 then 32 else 16);
            op_tensor_scale = (scale input_qtype * scale weight_qtype) / scale output_qtype;
            r = RescaleOp output_type conv_val 0 (s32 (zeroPoint output_qtype))
                  [fst (cms op_tensor_scale w)] [snd (cms op_tensor_scale w)]
                  (storageTypeIntegralWidth output_qtype = 8) True False
        in Inr (Some (Value (RankedTensor output_type) (Some (Tosa_RescaleOp r))),
                rewriter\<lparr>created := created rewriter @ [Tosa_RescaleOp r]\<rparr>))"
  using assms
  by (simp add: buildRescaleOpConvOutput_def dyn_cast_UniformQuantizedType_def isScale32_def
      create_def Let_def case_prod_beta)

lemma buildRescaleOpConvOutput_per_channel_eq:
  assumes "getElementType input_type = UniformQuantized input_qtype"
    and "getElementType output_type = UniformQuantized output_qtype"
    and "getElementType weight_type = UniformQuantizedPerAxis weight_qtype"
    and "getShape output_type \<noteq> []"
    and "nat (u32 (last (getShape output_type))) \<le> length (pa_scales weight_qtype)"
  shows "buildRescaleOpConvOutput cms rewriter conv_val input_type weight_type output_type
     = (let w = (if storageTypeIntegralWidth output_qtype = 8 then 32 else 16);
            r = RescaleOp output_type conv_val 0 (s32 (zeroPoint output_qtype))
                  (map (\<lambda>oc. fst (cms ((scale input_qtype * pa_scales weight_qtype ! oc)
                                          / scale output_qtype) w))
                     [0 ..< nat (u32 (last (getShape output_type)))])
                  (map (\<lambda>oc. snd (cms ((scale input_qtype * pa_scales weight_qtype ! oc)
                                          / scale output_qtype) w))
                     [0 ..< nat (u32 (last (getShape output_type)))])
                  (storageTypeIntegralWidth output_qtype = 8) True True
        in Inr (Some (Value (RankedTensor output_type) (Some (Tosa_RescaleOp r))),
                rewriter\<lparr>created := created rewriter @ [Tosa_RescaleOp r]\<rparr>))"
proof -
  have l: "getShape output_type ! (length (getShape output_type) - Suc 0) = last (getShape output_type)"
    using assms(4) by (simp add: last_conv_nth)
  have ok: "\<forall>oc \<in> set [0 ..< nat (u32 (last (getShape output_type)))].
              oc < length (pa_scales weight_qtype)"
    using assms(5) by auto
  show ?thesis
    using assms(1-4)
    by (simp add: buildRescaleOpConvOutput_def dyn_cast_UniformQuantizedType_def
        dyn_cast_UniformQuantizedPerAxisType_def l conv_channel_loop_ok [OF ok]
        isScale32_def create_def Let_def)
qed

text \<open>
  Claim C2, as the code has it. The channel count is read from the trailing dimension of
  the output shape into a \<open>uint32_t\<close>, and the loop reads one weight scale per channel.
  So for input and output element types that are uniform-quantized, a per-axis weight
  element type, an output shape with a trailing dimension \<open>N\<close>, \<open>0 \<le> N < 2^32\<close>, and
  at least \<open>N\<close> weight scales, the call emits one rescale operation with exactly \<open>N\<close>
  multipliers and \<open>N\<close> shifts, the pair of channel \<open>c\<close> being computed from
  \<open>(input_scale * weight_scale[c]) / output_scale\<close>, and with the per-channel flag set.
\<close>

theorem buildRescaleOpConvOutput_per_channel:
  assumes "getElementType input_type = UniformQuantized input_qtype"
    and "getElementType output_type = UniformQuantized output_qtype"
    and "getElementType weight_type = UniformQuantizedPerAxis weight_qtype"
    and "getShape output_type \<noteq> []"
    and "0 \<le> last (getShape output_type)" and "last (getShape output_type) < 2 ^ 32"
    and "nat (last (getShape output_type)) \<le> length (pa_scales weight_qtype)"
  shows "\<exists>r. buildRescaleOpConvOutput cms rewriter conv_val input_type weight_type output_type
             = Inr (Some (Value (RankedTensor output_type) (Some (Tosa_RescaleOp r))),
                    rewriter\<lparr>created := created rewriter @ [Tosa_RescaleOp r]\<rparr>)
           \<and> length (rs_multiplier r) = nat (last (getShape output_type))
           \<and> length (rs_shift r) = nat (last (getShape output_type))
           \<and> (\<forall>c < nat (last (getShape output_type)).
                 (rs_multiplier r ! c, rs_shift r ! c)
                   = cms ((scale input_qtype * pa_scales weight_qtype ! c) / scale output_qtype)
                       (if isScale32 output_qtype then 32 else 16))
           \<and> rs_per_channel r"
proof -
  have u: "u32 (last (getShape output_type)) = last (getShape output_type)"
    using assms(5,6) by (simp add: u32_def)
  have n: "nat (u32 (last (getShape output_type))) \<le> length (pa_scales weight_qtype)"
    using assms(7) by (simp add: u)
  show ?thesis
    by (simp add: buildRescaleOpConvOutput_per_channel_eq [OF assms(1-4) n] Let_def u isScale32_def)
qed


text \<open>
  Three output channels with the weight scales \<open>1/2\<close>, \<open>1/4\<close> and \<open>1/8\<close>: three
  multiplier and shift pairs, one per channel.
\<close>

theorem buildRescaleOpConvOutput_per_channel_witness:
  "let q = \<lparr>isSigned = True, storageTypeIntegralWidth = 8, expressedType = F32Type, scale = 1,
             zeroPoint = 0, storageTypeMin = - 128, storageTypeMax = 127\<rparr>;
       input_type = \<lparr>getShape = [1, 4, 4, 2], getElementType = UniformQuantized q\<rparr>;
       weight_type = \<lparr>getShape = [3, 1, 1, 2], getElementType = UniformQuantizedPerAxis
          \<lparr>pa_storageTypeIntegralWidth = 8, pa_scales = [1 / 2, 1 / 4, 1 / 8],
           pa_zeroPoints = [0, 0, 0], pa_quantizedDimension = 0\<rparr>\<rparr>;
       output_type = \<lparr>getShape = [1, 4, 4, 3], getElementType = UniformQuantized q\<rparr>;
       conv_val = Value (RankedTensor \<lparr>getShape = [1, 4, 4, 3], getElementType = IntegerType 32\<rparr>) None
   in \<exists>r. buildRescaleOpConvOutput (\<lambda>s w. (\<lfloor>s * 1024\<rfloor>, w)) \<lparr>created = [], diagnostics = []\<rparr>
             conv_val input_type weight_type output_type
           = Inr (Some (Value (RankedTensor output_type) (Some (Tosa_RescaleOp r))),
                  \<lparr>created = [Tosa_RescaleOp r], diagnostics = []\<rparr>)
         \<and> length (rs_multiplier r) = 3 \<and> length (rs_shift r) = 3
         \<and> (rs_multiplier r ! 0, rs_shift r ! 0) = (512, 32)
         \<and> (rs_multiplier r ! 1, rs_shift r ! 1) = (256, 32)
         \<and> (rs_multiplier r ! 2, rs_shift r ! 2) = (128, 32)
         \<and> rs_per_channel r"
proof -
  let ?q = "\<lparr>isSigned = True, storageTypeIntegralWidth = 8, expressedType = F32Type, scale = 1,
             zeroPoint = 0, storageTypeMin = - 128, storageTypeMax = 127\<rparr>"
  let ?w = "\<lparr>pa_storageTypeIntegralWidth = 8, pa_scales = [1 / 2, 1 / 4, 1 / 8],
           pa_zeroPoints = [0, 0, 0], pa_quantizedDimension = 0\<rparr>"
  let ?out = "\<lparr>getShape = [1, 4, 4, 3], getElementType = UniformQuantized ?q\<rparr>"
  obtain r where r:
    "buildRescaleOpConvOutput (\<lambda>s w. (\<lfloor>s * 1024\<rfloor>, w)) \<lparr>created = [], diagnostics = []\<rparr>
        (Value (RankedTensor \<lparr>getShape = [1, 4, 4, 3], getElementType = IntegerType 32\<rparr>) None)
        \<lparr>getShape = [1, 4, 4, 2], getElementType = UniformQuantized ?q\<rparr>
        \<lparr>getShape = [3, 1, 1, 2], getElementType = UniformQuantizedPerAxis ?w\<rparr> ?out
      = Inr (Some (Value (RankedTensor ?out) (Some (Tosa_RescaleOp r))),
             \<lparr>created = [], diagnostics = []\<rparr>\<lparr>created :=
                created \<lparr>created = [], diagnostics = []\<rparr> @ [Tosa_RescaleOp r]\<rparr>)"
    "length (rs_multiplier r) = nat (last (getShape ?out))"
    "length (rs_shift r) = nat (last (getShape ?out))"
    "\<forall>c < nat (last (getShape ?out)).
        (rs_multiplier r ! c, rs_shift r ! c)
          = (\<lambda>s w. (\<lfloor>s * 1024\<rfloor>, w)) ((scale ?q * pa_scales ?w ! c) / scale ?q)
              (if isScale32 ?q then 32 else 16)"
    "rs_per_channel r"
    using buildRescaleOpConvOutput_per_channel [where input_qtype = ?q and output_qtype = ?q
        and weight_qtype = ?w and output_type = ?out
        and input_type = "\<lparr>getShape = [1, 4, 4, 2], getElementType = UniformQuantized ?q\<rparr>"
        and weight_type = "\<lparr>getShape = [3, 1, 1, 2], getElementType = UniformQuantizedPerAxis ?w\<rparr>"
        and cms = "\<lambda>s w. (\<lfloor>s * 1024\<rfloor>, w)" and rewriter = "\<lparr>created = [], diagnostics = []\<rparr>"
        and conv_val = "Value (RankedTensor \<lparr>getShape = [1, 4, 4, 3], getElementType = IntegerType 32\<rparr>) None"]
    by auto
  have n: "nat (last (getShape ?out)) = 3" by simp
  have "(rs_multiplier r ! 0, rs_shift r ! 0) = (512, 32)"
       "(rs_multiplier r ! 1, rs_shift r ! 1) = (256, 32)"
       "(rs_multiplier r ! 2, rs_shift r ! 2) = (128, 32)"
    using r(4) unfolding n by (simp_all add: isScale32_def)
  then show ?thesis using r(1,2,3,5) unfolding n Let_def by auto
qed

text \<open>
  The claim as stated, for every output shape, fails where the trailing dimension does
  not fit \<open>uint32_t\<close>: for a trailing dimension of \<open>2^32 + 1\<close> the loop runs once and the
  operation carries one multiplier.
\<close>

theorem buildRescaleOpConvOutput_per_channel_counterexample:
  "let q = \<lparr>isSigned = True, storageTypeIntegralWidth = 8, expressedType = F32Type, scale = 1,
             zeroPoint = 0, storageTypeMin = - 128, storageTypeMax = 127\<rparr>;
       input_type = \<lparr>getShape = [2], getElementType = UniformQuantized q\<rparr>;
       weight_type = \<lparr>getShape = [2], getElementType = UniformQuantizedPerAxis
          \<lparr>pa_storageTypeIntegralWidth = 8, pa_scales = [1 / 2],
           pa_zeroPoints = [0], pa_quantizedDimension = 0\<rparr>\<rparr>;
       output_type = \<lparr>getShape = [4294967297], getElementType = UniformQuantized q\<rparr>;
       conv_val = Value (RankedTensor \<lparr>getShape = [4294967297], getElementType = IntegerType 32\<rparr>) None;
       r = RescaleOp output_type conv_val 0 0 [512] [32] True True True
   in buildRescaleOpConvOutput (\<lambda>s w. (\<lfloor>s * 1024\<rfloor>, w)) \<lparr>created = [], diagnostics = []\<rparr>
             conv_val input_type weight_type output_type
           = Inr (Some (Value (RankedTensor output_type) (Some (Tosa_RescaleOp r))),
                  \<lparr>created = [Tosa_RescaleOp r], diagnostics = []\<rparr>)
      \<and> length (rs_multiplier r) = 1
      \<and> last (getShape output_type) = 4294967297"
  by (simp add: buildRescaleOpConvOutput_def dyn_cast_UniformQuantizedType_def
      dyn_cast_UniformQuantizedPerAxisType_def isScale32_def create_def u32_def s32_def Let_def)

text \<open>
  Claim C8, as the code has it. The scales of the input and of the output element type
  are read before the weight type is looked at, so both must be uniform-quantized. Then,
  for a weight element type that is neither uniform-quantized nor per-axis quantized, the
  call appends the error to the diagnostics, creates no operation (\<open>created\<close> is
  unchanged) and returns the null value.
\<close>

theorem buildRescaleOpConvOutput_unknown_weight:
  assumes "getElementType input_type = UniformQuantized input_qtype"
    and "getElementType output_type = UniformQuantized output_qtype"
    and "\<nexists>q. getElementType weight_type = UniformQuantized q"
    and "\<nexists>q. getElementType weight_type = UniformQuantizedPerAxis q"
  shows "buildRescaleOpConvOutput cms rewriter conv_val input_type weight_type output_type
     = Inr (None, rewriter\<lparr>diagnostics := diagnostics rewriter
                               @ [''buildConvRescaleOp: unknown weight quantized type'']\<rparr>)"
  using assms
  by (cases "getElementType weight_type")
     (simp_all add: buildRescaleOpConvOutput_def dyn_cast_UniformQuantizedType_def
        dyn_cast_UniformQuantizedPerAxisType_def emitOpError_def Let_def)

text \<open>
  A weight tensor of plain 32-bit floats between a quantized input and output.
\<close>

theorem buildRescaleOpConvOutput_unknown_weight_witness:
  "let q = \<lparr>isSigned = True, storageTypeIntegralWidth = 8, expressedType = F32Type, scale = 1,
             zeroPoint = 0, storageTypeMin = - 128, storageTypeMax = 127\<rparr>
   in buildRescaleOpConvOutput (\<lambda>s w. (\<lfloor>s * 1024\<rfloor>, w)) \<lparr>created = [], diagnostics = []\<rparr>
        (Value (RankedTensor \<lparr>getShape = [1, 4, 4, 3], getElementType = IntegerType 32\<rparr>) None)
        \<lparr>getShape = [1, 4, 4, 2], getElementType = UniformQuantized q\<rparr>
        \<lparr>getShape = [3, 1, 1, 2], getElementType = FloatElementType F32Type\<rparr>
        \<lparr>getShape = [1, 4, 4, 3], getElementType = UniformQuantized q\<rparr>
      = Inr (None, \<lparr>created = [],
                    diagnostics = [''buildConvRescaleOp: unknown weight quantized type'']\<rparr>)"
  using buildRescaleOpConvOutput_unknown_weight [where
      input_qtype = "\<lparr>isSigned = True, storageTypeIntegralWidth = 8, expressedType = F32Type,
        scale = 1, zeroPoint = 0, storageTypeMin = - 128, storageTypeMax = 127\<rparr>"
      and output_qtype = "\<lparr>isSigned = True, storageTypeIntegralWidth = 8, expressedType = F32Type,
        scale = 1, zeroPoint = 0, storageTypeMin = - 128, storageTypeMax = 127\<rparr>"
      and input_type = "\<lparr>getShape = [1, 4, 4, 2], getElementType = UniformQuantized
        \<lparr>isSigned = True, storageTypeIntegralWidth = 8, expressedType = F32Type,
        scale = 1, zeroPoint = 0, storageTypeMin = - 128, storageTypeMax = 127\<rparr>\<rparr>"
      and output_type = "\<lparr>getShape = [1, 4, 4, 3], getElementType = UniformQuantized
        \<lparr>isSigned = True, storageTypeIntegralWidth = 8, expressedType = F32Type,
        scale = 1, zeroPoint = 0, storageTypeMin = - 128, storageTypeMax = 127\<rparr>\<rparr>"
      and weight_type = "\<lparr>getShape = [3, 1, 1, 2], getElementType = FloatElementType F32Type\<rparr>"
      and cms = "\<lambda>s w. (\<lfloor>s * 1024\<rfloor>, w)" and rewriter = "\<lparr>created = [], diagnostics = []\<rparr>"
      and conv_val = "Value (RankedTensor \<lparr>getShape = [1, 4, 4, 3], getElementType = IntegerType 32\<rparr>) None"]
  by (simp add: Let_def)

text \<open>
  The claim as stated, for every call with such a weight type, fails where the input
  element type is not uniform-quantized: \<open>getScale\<close> is called on the null result of the
  \<open>dyn_cast\<close> before the weight type is examined, and no diagnostic is emitted.
\<close>

theorem buildRescaleOpConvOutput_unknown_weight_counterexample:
  "buildRescaleOpConvOutput (\<lambda>s w. (\<lfloor>s * 1024\<rfloor>, w)) \<lparr>created = [], diagnostics = []\<rparr>
        (Value (RankedTensor \<lparr>getShape = [1, 4, 4, 3], getElementType = IntegerType 32\<rparr>) None)
        \<lparr>getShape = [1, 4, 4, 2], getElementType = FloatElementType F32Type\<rparr>
        \<lparr>getShape = [3, 1, 1, 2], getElementType = FloatElementType F32Type\<rparr>
        \<lparr>getShape = [1, 4, 4, 3], getElementType = FloatElementType F32Type\<rparr>
      = Inl NullDereference"
  by (simp add: buildRescaleOpConvOutput_def dyn_cast_UniformQuantizedType_def)


subsection \<open>The padding of a transposed convolution\<close>

text \<open>
  Narrowing to 32 bits forgets every multiple of \<open>2^32\<close>, so the wrap-around of the
  64-bit operations inside the two assignments to \<open>int\<close> variables plays no part.
\<close>

lemma s64_mod: "s64 x mod 2 ^ 32 = x mod 2 ^ 32"
proof -
  have "s64 x = x - 2 ^ 64 * ((x + 2 ^ 63) div 2 ^ 64)"
    by (simp add: s64_def minus_mult_div_eq_mod [symmetric])
  also have "\<dots> = x + 2 ^ 32 * (- (2 ^ 32) * ((x + 2 ^ 63) div 2 ^ 64))" by simp
  finally have "s64 x mod 2 ^ 32 = (x + 2 ^ 32 * (- (2 ^ 32) * ((x + 2 ^ 63) div 2 ^ 64))) mod 2 ^ 32"
    by simp
  then show ?thesis by (simp only: mod_mult_self2)
qed

lemma s32_cong: "x mod 2 ^ 32 = y mod 2 ^ 32 \<Longrightarrow> s32 x = s32 y"
proof -
  assume "x mod 2 ^ 32 = y mod 2 ^ 32"
  then have "(x + 2 ^ 31) mod 2 ^ 32 = (y + 2 ^ 31) mod 2 ^ 32"
    by (metis mod_add_left_eq)
  then show ?thesis by (simp add: s32_def)
qed

lemma s32_s64: "s32 (s64 x) = s32 x"
  by (rule s32_cong) (rule s64_mod)

lemma s32_effective_filter_size:
  "s32 (s64 (s64 (s64 (filter_size - 1) * dim_dilation) + 1))
     = s32 ((filter_size - 1) * dim_dilation + 1)"
proof -
  have "(s64 (s64 (filter_size - 1) * dim_dilation) + 1) mod 2 ^ 32
        = ((filter_size - 1) * dim_dilation + 1) mod 2 ^ 32"
    by (metis s64_mod mod_add_left_eq mod_mult_left_eq)
  then show ?thesis unfolding s32_s64 by (rule s32_cong)
qed

lemma s32_total_padding:
  "s32 (s64 (s64 (s64 (s64 (ifm_size - 1) * dim_stride) + e) - ofm_size))
     = s32 ((ifm_size - 1) * dim_stride + e - ofm_size)"
proof -
  have a: "s64 (s64 (ifm_size - 1) * dim_stride) mod 2 ^ 32 = ((ifm_size - 1) * dim_stride) mod 2 ^ 32"
    by (metis s64_mod mod_mult_left_eq)
  have b: "s64 (s64 (s64 (ifm_size - 1) * dim_stride) + e) mod 2 ^ 32
         = ((ifm_size - 1) * dim_stride + e) mod 2 ^ 32"
    by (metis a s64_mod mod_add_left_eq)
  have "(s64 (s64 (s64 (ifm_size - 1) * dim_stride) + e) - ofm_size) mod 2 ^ 32
        = ((ifm_size - 1) * dim_stride + e - ofm_size) mod 2 ^ 32"
    by (metis b mod_diff_left_eq)
  then show ?thesis unfolding s32_s64 by (rule s32_cong)
qed

lemma int_div_nonneg: "0 \<le> a \<Longrightarrow> int_div a 2 = a div 2"
  by (cases "a = 0") (simp_all add: int_div_def)

lemma transpose_pad_dim_spec:
  assumes "getDimSize input_type (G 4 data_format_tf i) = Inr ifm_size"
    and "getDimSize filter_type (u32 (first_filter_spatial_dim + i)) = Inr filter_size"
    and "getDimSize output_type (G 4 data_format_tf i) = Inr ofm_size"
    and "getIntAt dilations i = Inr dim_dilation"
    and "getIntAt strides i = Inr dim_stride"
    and "- (2 ^ 31) \<le> spec_effective_filter_size filter_size dim_dilation"
    and "spec_effective_filter_size filter_size dim_dilation < 2 ^ 31"
    and "- (2 ^ 31) \<le> (ifm_size - 1) * dim_stride
            + spec_effective_filter_size filter_size dim_dilation - ofm_size"
    and "(ifm_size - 1) * dim_stride
            + spec_effective_filter_size filter_size dim_dilation - ofm_size < 2 ^ 31"
  shows "transpose_pad_dim G data_format_tf first_filter_spatial_dim input_type filter_type
           output_type strides dilations i
         = Inr (spec_pad_before ifm_size filter_size ofm_size dim_stride dim_dilation)"
proof -
  let ?e = "(filter_size - 1) * dim_dilation + 1"
  let ?t = "(ifm_size - 1) * dim_stride + ?e - ofm_size"
  have e: "s32 ?e = ?e"
    using assms(6,7) by (intro s32_id) (simp_all add: spec_effective_filter_size_def)
  have t: "s32 ?t = ?t"
    using assms(8,9) by (intro s32_id) (simp_all add: spec_effective_filter_size_def)
  have d: "int_div (max 0 ?t) 2 = max 0 ?t div 2" by (intro int_div_nonneg) simp
  have "transpose_pad_dim G data_format_tf first_filter_spatial_dim input_type filter_type
           output_type strides dilations i
        = Inr (int_div (if 0 < ?t then ?t else 0) 2)"
    using assms(1-5)
    by (simp add: transpose_pad_dim_def Let_def s32_effective_filter_size e s32_total_padding t)
  also have "(if 0 < ?t then ?t else 0) = max 0 ?t" by simp
  finally show ?thesis
    by (simp only: d spec_pad_before_def spec_total_padding_def spec_effective_filter_size_def)
qed

lemma transpose_pad_dim_total:
  assumes "getDimSize input_type (G 4 data_format_tf i) = Inr ifm_size"
    and "getDimSize filter_type (u32 (first_filter_spatial_dim + i)) = Inr filter_size"
    and "getDimSize output_type (G 4 data_format_tf i) = Inr ofm_size"
    and "getIntAt dilations i = Inr dim_dilation"
    and "getIntAt strides i = Inr dim_stride"
  shows "\<exists>p. transpose_pad_dim G data_format_tf first_filter_spatial_dim input_type filter_type
           output_type strides dilations i = Inr p"
  using assms by (simp add: transpose_pad_dim_def Let_def)

lemma getTransposeConv2dPaddingValues_two:
  assumes "tf_pad \<noteq> EXPLICIT"
    and "transpose_pad_dim G data_format_tf first_filter_spatial_dim input_type filter_type
           output_type strides dilations 0 = Inr p0"
    and "transpose_pad_dim G data_format_tf first_filter_spatial_dim input_type filter_type
           output_type strides dilations 1 = Inr p1"
  shows "getTransposeConv2dPaddingValues G tf_pad data_format_tf first_filter_spatial_dim
           input_type filter_type output_type strides dilations
         = Inr (True, [IntegerAttr p0, IntegerAttr p1])"
  using assms by (simp add: getTransposeConv2dPaddingValues_def)

lemma transpose_pad_loop_never_false:
  "getTransposeConv2dPaddingValues G tf_pad data_format_tf first_filter_spatial_dim
           input_type filter_type output_type strides dilations \<noteq> Inr (False, p)"
  by (simp add: getTransposeConv2dPaddingValues_def split: sum.splits)

text \<open>
  Claim C3, as the code has it. \<open>effective_filter_size\<close> and \<open>total_padding\<close> are
  \<open>int\<close> variables that receive 64-bit results. So for a padding policy other than
  \<open>EXPLICIT\<close>, shapes and stride and dilation arrays that hold the entries the loop reads,
  and sizes for which \<open>(filter_size - 1) * dilation + 1\<close> and
  \<open>(input_size - 1) * stride + effective_filter_size - output_size\<close> fit a signed 32-bit
  integer, the call succeeds and the padding attribute it stores has exactly two entries:
  the \<open>pad_before\<close> of the two spatial dimensions, each \<open>total_padding div 2\<close> for
  \<open>total_padding = max 0 ((input_size - 1) * stride + effective_filter_size - output_size)\<close>.
  \<open>pad_after\<close> is computed and never stored.
\<close>

theorem getTransposeConv2dPaddingValues_formula:
  assumes "tf_pad \<noteq> EXPLICIT"
    and "\<forall>i \<in> {0, 1}.
           getDimSize input_type (G 4 data_format_tf i) = Inr (ifm_size i)
         \<and> getDimSize filter_type (u32 (first_filter_spatial_dim + i)) = Inr (filter_size i)
         \<and> getDimSize output_type (G 4 data_format_tf i) = Inr (ofm_size i)
         \<and> getIntAt dilations i = Inr (dim_dilation i)
         \<and> getIntAt strides i = Inr (dim_stride i)"
    and "\<forall>i \<in> {0, 1}.
           - (2 ^ 31) \<le> spec_effective_filter_size (filter_size i) (dim_dilation i)
         \<and> spec_effective_filter_size (filter_size i) (dim_dilation i) < 2 ^ 31
         \<and> - (2 ^ 31) \<le> (ifm_size i - 1) * dim_stride i
               + spec_effective_filter_size (filter_size i) (dim_dilation i) - ofm_size i
         \<and> (ifm_size i - 1) * dim_stride i
               + spec_effective_filter_size (filter_size i) (dim_dilation i) - ofm_size i < 2 ^ 31"
  shows "getTransposeConv2dPaddingValues G tf_pad data_format_tf first_filter_spatial_dim
           input_type filter_type output_type strides dilations
         = Inr (True,
             [IntegerAttr (spec_pad_before (ifm_size 0) (filter_size 0) (ofm_size 0)
                             (dim_stride 0) (dim_dilation 0)),
              IntegerAttr (spec_pad_before (ifm_size 1) (filter_size 1) (ofm_size 1)
                             (dim_stride 1) (dim_dilation 1))])"
proof -
  have "transpose_pad_dim G data_format_tf first_filter_spatial_dim input_type filter_type
           output_type strides dilations 0
        = Inr (spec_pad_before (ifm_size 0) (filter_size 0) (ofm_size 0)
                 (dim_stride 0) (dim_dilation 0))"
    using assms(2,3) by (intro transpose_pad_dim_spec) simp_all
  moreover have "transpose_pad_dim G data_format_tf first_filter_spatial_dim input_type filter_type
           output_type strides dilations 1
        = Inr (spec_pad_before (ifm_size 1) (filter_size 1) (ofm_size 1)
                 (dim_stride 1) (dim_dilation 1))"
    using assms(2,3) by (intro transpose_pad_dim_spec) simp_all
  ultimately show ?thesis using assms(1) by (rule getTransposeConv2dPaddingValues_two [rotated])
qed

text \<open>
  The example of the specification: input 2, filter 3, stride 2, output 4, dilation 1 in
  both spatial dimensions of a channel-last layout; the emitted \<open>pad_before\<close> is 0.
\<close>

theorem getTransposeConv2dPaddingValues_formula_witness:
  "getTransposeConv2dPaddingValues (\<lambda>num_dims format i. i + 1) SAME () 1
     \<lparr>getShape = [1, 2, 2, 8], getElementType = FloatElementType F32Type\<rparr>
     \<lparr>getShape = [8, 3, 3, 8], getElementType = FloatElementType F32Type\<rparr>
     \<lparr>getShape = [1, 4, 4, 8], getElementType = FloatElementType F32Type\<rparr>
     [IntegerAttr 2, IntegerAttr 2] [IntegerAttr 1, IntegerAttr 1]
   = Inr (True, [IntegerAttr 0, IntegerAttr 0])"
  using getTransposeConv2dPaddingValues_formula [where tf_pad = SAME
      and G = "\<lambda>num_dims format i. i + 1" and data_format_tf = "()"
      and first_filter_spatial_dim = 1
      and input_type = "\<lparr>getShape = [1, 2, 2, 8], getElementType = FloatElementType F32Type\<rparr>"
      and filter_type = "\<lparr>getShape = [8, 3, 3, 8], getElementType = FloatElementType F32Type\<rparr>"
      and output_type = "\<lparr>getShape = [1, 4, 4, 8], getElementType = FloatElementType F32Type\<rparr>"
      and strides = "[IntegerAttr 2, IntegerAttr 2]" and dilations = "[IntegerAttr 1, IntegerAttr 1]"
      and ifm_size = "\<lambda>i. 2" and filter_size = "\<lambda>i. 3" and ofm_size = "\<lambda>i. 4"
      and dim_stride = "\<lambda>i. 2" and dim_dilation = "\<lambda>i. 1"]
  by (simp add: getDimSize_def getIntAt_def u32_def spec_pad_before_def spec_total_padding_def
      spec_effective_filter_size_def)

text \<open>
  The claim as stated, for every shape, stride and dilation, fails where the effective
  filter size does not fit \<open>int\<close>: for a filter of 65537 with dilation 65536 it is
  \<open>2^32 + 1\<close>, stored as 1, and the emitted \<open>pad_before\<close> is 0 where the formula gives
  \<open>2^31\<close>.
\<close>

theorem getTransposeConv2dPaddingValues_formula_counterexample:
  "getTransposeConv2dPaddingValues (\<lambda>num_dims format i. i + 1) SAME () 1
     \<lparr>getShape = [1, 1, 1, 8], getElementType = FloatElementType F32Type\<rparr>
     \<lparr>getShape = [8, 65537, 65537, 8], getElementType = FloatElementType F32Type\<rparr>
     \<lparr>getShape = [1, 1, 1, 8], getElementType = FloatElementType F32Type\<rparr>
     [IntegerAttr 1, IntegerAttr 1] [IntegerAttr 65536, IntegerAttr 65536]
   = Inr (True, [IntegerAttr 0, IntegerAttr 0])
 \<and> spec_pad_before 1 65537 1 1 65536 = 2147483648"
proof -
  let ?it = "\<lparr>getShape = [1, 1, 1, 8], getElementType = FloatElementType F32Type\<rparr>"
  let ?ft = "\<lparr>getShape = [8, 65537, 65537, 8], getElementType = FloatElementType F32Type\<rparr>"
  let ?G = "\<lambda>(num_dims::int) (format::unit) (i::int). i + 1"
  have e: "s32 4294967297 = 1" by (simp add: s32_def)
  have t: "s32 0 = 0" by (simp add: s32_def)
  have d: "int_div 0 2 = 0" by (simp add: int_div_def)
  have p0: "transpose_pad_dim ?G () 1 ?it ?ft ?it [IntegerAttr 1, IntegerAttr 1]
              [IntegerAttr 65536, IntegerAttr 65536] 0 = Inr 0"
    by (simp add: transpose_pad_dim_def getDimSize_def getIntAt_def u32_def Let_def s64_id e t d)
  have p1: "transpose_pad_dim ?G () 1 ?it ?ft ?it [IntegerAttr 1, IntegerAttr 1]
              [IntegerAttr 65536, IntegerAttr 65536] 1 = Inr 0"
    by (simp add: transpose_pad_dim_def getDimSize_def getIntAt_def u32_def Let_def s64_id e t d)
  have "getTransposeConv2dPaddingValues ?G SAME () 1 ?it ?ft ?it
          [IntegerAttr 1, IntegerAttr 1] [IntegerAttr 65536, IntegerAttr 65536]
        = Inr (True, [IntegerAttr 0, IntegerAttr 0])"
    by (rule getTransposeConv2dPaddingValues_two [OF _ p0 p1]) simp
  moreover have "spec_pad_before 1 65537 1 1 65536 = 2147483648"
    by (simp add: spec_pad_before_def spec_total_padding_def spec_effective_filter_size_def)
  ultimately show ?thesis by simp
qed

lemma transpose_pad_dim_reads:
  assumes "\<exists>v. getDimSize input_type (G 4 data_format_tf i) = Inr v"
    and "\<exists>v. getDimSize filter_type (u32 (first_filter_spatial_dim + i)) = Inr v"
    and "\<exists>v. getDimSize output_type (G 4 data_format_tf i) = Inr v"
    and "\<exists>v. getIntAt dilations i = Inr v"
    and "\<exists>v. getIntAt strides i = Inr v"
  shows "\<exists>p. transpose_pad_dim G data_format_tf first_filter_spatial_dim input_type filter_type
           output_type strides dilations i = Inr p"
proof -
  from assms obtain a b c d e where
    "getDimSize input_type (G 4 data_format_tf i) = Inr a"
    "getDimSize filter_type (u32 (first_filter_spatial_dim + i)) = Inr b"
    "getDimSize output_type (G 4 data_format_tf i) = Inr c"
    "getIntAt dilations i = Inr d"
    "getIntAt strides i = Inr e"
    by blast
  then show ?thesis by (rule transpose_pad_dim_total)
qed

text \<open>
  Claim C10, as the code has it. No call returns \<open>false\<close>: the function has no failure
  return. It returns \<open>true\<close> for every input that passes the assertion
  \<open>tf_pad != EXPLICIT\<close> and whose shapes and stride and dilation arrays hold the entries
  the loop reads, whatever the sizes, strides and dilations are.
\<close>

theorem getTransposeConv2dPaddingValues_returns_true:
  "(\<forall>p. getTransposeConv2dPaddingValues G tf_pad data_format_tf first_filter_spatial_dim
           input_type filter_type output_type strides dilations \<noteq> Inr (False, p))
 \<and> (tf_pad \<noteq> EXPLICIT
      \<and> (\<forall>i \<in> {0, 1}.
            (\<exists>v. getDimSize input_type (G 4 data_format_tf i) = Inr v)
          \<and> (\<exists>v. getDimSize filter_type (u32 (first_filter_spatial_dim + i)) = Inr v)
          \<and> (\<exists>v. getDimSize output_type (G 4 data_format_tf i) = Inr v)
          \<and> (\<exists>v. getIntAt dilations i = Inr v)
          \<and> (\<exists>v. getIntAt strides i = Inr v))
    \<longrightarrow> (\<exists>p0 p1. getTransposeConv2dPaddingValues G tf_pad data_format_tf
                      first_filter_spatial_dim input_type filter_type output_type strides dilations
                    = Inr (True, [IntegerAttr p0, IntegerAttr p1])))"
proof (intro conjI allI impI)
  fix p
  show "getTransposeConv2dPaddingValues G tf_pad data_format_tf first_filter_spatial_dim
           input_type filter_type output_type strides dilations \<noteq> Inr (False, p)"
    by (rule transpose_pad_loop_never_false)
next
  assume a: "tf_pad \<noteq> EXPLICIT
      \<and> (\<forall>i \<in> {0, 1}.
            (\<exists>v. getDimSize input_type (G 4 data_format_tf i) = Inr v)
          \<and> (\<exists>v. getDimSize filter_type (u32 (first_filter_spatial_dim + i)) = Inr v)
          \<and> (\<exists>v. getDimSize output_type (G 4 data_format_tf i) = Inr v)
          \<and> (\<exists>v. getIntAt dilations i = Inr v)
          \<and> (\<exists>v. getIntAt strides i = Inr v))"
  have "\<exists>p. transpose_pad_dim G data_format_tf first_filter_spatial_dim input_type
      filter_type output_type strides dilations 0 = Inr p"
    by (rule transpose_pad_dim_reads) (use a in simp_all)
  then obtain p0 where p0: "transpose_pad_dim G data_format_tf first_filter_spatial_dim input_type
      filter_type output_type strides dilations 0 = Inr p0" ..
  have "\<exists>p. transpose_pad_dim G data_format_tf first_filter_spatial_dim input_type
      filter_type output_type strides dilations 1 = Inr p"
    by (rule transpose_pad_dim_reads) (use a in simp_all)
  then obtain p1 where p1: "transpose_pad_dim G data_format_tf first_filter_spatial_dim input_type
      filter_type output_type strides dilations 1 = Inr p1" ..
  have "getTransposeConv2dPaddingValues G tf_pad data_format_tf
                      first_filter_spatial_dim input_type filter_type output_type strides dilations
                    = Inr (True, [IntegerAttr p0, IntegerAttr p1])"
    using a by (intro getTransposeConv2dPaddingValues_two p0 p1) simp
  then show "\<exists>p0 p1. getTransposeConv2dPaddingValues G tf_pad data_format_tf
                      first_filter_spatial_dim input_type filter_type output_type strides dilations
                    = Inr (True, [IntegerAttr p0, IntegerAttr p1])"
    by blast
qed

text \<open>
  An input whose output extent could not be produced by any padding is still answered
  with \<open>true\<close>.
\<close>

theorem getTransposeConv2dPaddingValues_returns_true_witness:
  "\<exists>p0 p1. getTransposeConv2dPaddingValues (\<lambda>num_dims format i. i + 1) VALID () 1
     \<lparr>getShape = [1, 5, 7, 8], getElementType = FloatElementType F32Type\<rparr>
     \<lparr>getShape = [8, 3, 3, 8], getElementType = FloatElementType F32Type\<rparr>
     \<lparr>getShape = [1, 1, 1, 8], getElementType = FloatElementType F32Type\<rparr>
     [IntegerAttr 2, IntegerAttr 2] [IntegerAttr 1, IntegerAttr 1]
   = Inr (True, [IntegerAttr p0, IntegerAttr p1])"
  using getTransposeConv2dPaddingValues_returns_true [where tf_pad = VALID
      and G = "\<lambda>num_dims format i. i + 1" and data_format_tf = "()"
      and first_filter_spatial_dim = 1
      and input_type = "\<lparr>getShape = [1, 5, 7, 8], getElementType = FloatElementType F32Type\<rparr>"
      and filter_type = "\<lparr>getShape = [8, 3, 3, 8], getElementType = FloatElementType F32Type\<rparr>"
      and output_type = "\<lparr>getShape = [1, 1, 1, 8], getElementType = FloatElementType F32Type\<rparr>"
      and strides = "[IntegerAttr 2, IntegerAttr 2]" and dilations = "[IntegerAttr 1, IntegerAttr 1]"]
  by (simp add: getDimSize_def getIntAt_def u32_def)

text \<open>
  The claim as stated, for every input, fails at the padding policy \<open>EXPLICIT\<close>: the
  assertion at the head of the function stops the call.
\<close>

theorem getTransposeConv2dPaddingValues_returns_true_counterexample:
  "getTransposeConv2dPaddingValues (\<lambda>num_dims format i. i + 1) EXPLICIT () 1
     \<lparr>getShape = [1, 2, 2, 8], getElementType = FloatElementType F32Type\<rparr>
     \<lparr>getShape = [8, 3, 3, 8], getElementType = FloatElementType F32Type\<rparr>
     \<lparr>getShape = [1, 4, 4, 8], getElementType = FloatElementType F32Type\<rparr>
     [IntegerAttr 2, IntegerAttr 2] [IntegerAttr 1, IntegerAttr 1]
   = Inl PreconditionViolation"
  by (simp add: getTransposeConv2dPaddingValues_def)


subsection \<open>The bias helper\<close>

text \<open>
  Whatever a successful call returns, a second call on that result returns it unchanged
  and creates nothing: the constant built for a quantized bias has a plain integer
  element type.
\<close>

lemma getUnquantizedBias_idempotent:
  assumes "getUnquantizedBias rewriter input = Inr (v, rewriter')"
  shows "getUnquantizedBias rewriter' v = Inr (v, rewriter')"
proof (cases "getType input")
  case OtherType
  then show ?thesis using assms
    by (simp add: getUnquantizedBias_def dyn_cast_RankedTensorType_def)
next
  case (RankedTensor input_type)
  show ?thesis
  proof (cases "dyn_cast_QuantizedType (getElementType input_type)")
    case None
    then show ?thesis using assms RankedTensor
      by (simp add: getUnquantizedBias_def dyn_cast_RankedTensorType_def)
  next
    case (Some width)
    show ?thesis
    proof (cases "getDefiningOpConstElementsAttr input")
      case None
      then show ?thesis using assms RankedTensor Some
        by (simp add: getUnquantizedBias_def dyn_cast_RankedTensorType_def)
    next
      case (Some attr)
      then have "v = Value (RankedTensor \<lparr>getShape = getShape input_type,
                                             getElementType = IntegerType width\<rparr>)
                       (Some (Tosa_ConstOp attr))"
        using assms RankedTensor \<open>dyn_cast_QuantizedType (getElementType input_type) = Some width\<close>
        by (simp add: getUnquantizedBias_def dyn_cast_RankedTensorType_def create_def)
      then show ?thesis
        by (simp add: getUnquantizedBias_def dyn_cast_RankedTensorType_def
            dyn_cast_QuantizedType_def)
    qed
  qed
qed

text \<open>
  Claim C9, as the code has it. The function asserts that the type of its input is a
  ranked tensor type. For every value of such a type whose element type is not a
  quantized type (a constant or not), it returns the input unchanged and creates nothing,
  and so does a second application to that result.
\<close>

theorem getUnquantizedBias_unquantized:
  assumes "getType input = RankedTensor input_type"
    and "dyn_cast_QuantizedType (getElementType input_type) = None"
  shows "getUnquantizedBias rewriter input = Inr (input, rewriter)
       \<and> (case getUnquantizedBias rewriter input of
            Inl e \<Rightarrow> Inl e
          | Inr (v, rewriter') \<Rightarrow> getUnquantizedBias rewriter' v) = Inr (input, rewriter)"
  using assms by (simp add: getUnquantizedBias_def dyn_cast_RankedTensorType_def)

text \<open>
  A constant \<open>[1, 2, 3]\<close> of 32-bit integers.
\<close>

theorem getUnquantizedBias_unquantized_witness:
  "let bias = Value (RankedTensor \<lparr>getShape = [3], getElementType = IntegerType 32\<rparr>)
                (Some (Tosa_ConstOp (DenseElementsAttr
                   \<lparr>getShape = [3], getElementType = IntegerType 32\<rparr> [1, 2, 3])));
       rewriter = \<lparr>created = [], diagnostics = []\<rparr>
   in getDefiningOpConstElementsAttr bias
        = Some (DenseElementsAttr \<lparr>getShape = [3], getElementType = IntegerType 32\<rparr> [1, 2, 3])
    \<and> getUnquantizedBias rewriter bias = Inr (bias, rewriter)
    \<and> (case getUnquantizedBias rewriter bias of
            Inl e \<Rightarrow> Inl e
          | Inr (v, rewriter') \<Rightarrow> getUnquantizedBias rewriter' v) = Inr (bias, rewriter)"
  using getUnquantizedBias_unquantized [where
      input = "Value (RankedTensor \<lparr>getShape = [3], getElementType = IntegerType 32\<rparr>)
                (Some (Tosa_ConstOp (DenseElementsAttr
                   \<lparr>getShape = [3], getElementType = IntegerType 32\<rparr> [1, 2, 3])))"
      and input_type = "\<lparr>getShape = [3], getElementType = IntegerType 32\<rparr>"
      and rewriter = "\<lparr>created = [], diagnostics = []\<rparr>"]
  by (simp add: dyn_cast_QuantizedType_def getDefiningOpConstElementsAttr_def
      dyn_cast_ElementsAttr_def Let_def)

text \<open>
  The claim as stated, for every constant without quantization metadata, fails for a
  constant whose type is not a ranked tensor type: the assertion stops the call.
\<close>

theorem getUnquantizedBias_unquantized_counterexample:
  "let bias = Value OtherType
                (Some (Tosa_ConstOp (DenseElementsAttr
                   \<lparr>getShape = [3], getElementType = IntegerType 32\<rparr> [1, 2, 3])))
   in getDefiningOpConstElementsAttr bias
        = Some (DenseElementsAttr \<lparr>getShape = [3], getElementType = IntegerType 32\<rparr> [1, 2, 3])
    \<and> getUnquantizedBias \<lparr>created = [], diagnostics = []\<rparr> bias = Inl PreconditionViolation"
  by (simp add: getUnquantizedBias_def dyn_cast_RankedTensorType_def
      getDefiningOpConstElementsAttr_def dyn_cast_ElementsAttr_def Let_def)

end
